theory Spec2Isabelle
  imports Main "HOL-Library.Word"
begin

section \<open>HidCerberus: the guarded device and its polling loop\<close>

text \<open>
  A shallow embedding of \<^verbatim>\<open>src/HidCerberus/GuardedDevice.cpp\<close>: the constructor
  (lines 30-68), \<^verbatim>\<open>runTask\<close> (lines 70-214) and the destructor (lines 216-222).

  The code talks to the operating system, the filter driver, the logger, the random
  generator and the CLR host. Every such call is an \<^emph>\<open>event\<close> of the model, recorded in
  the order the source makes it, and everything those collaborators answer is an input of
  the model: one record per loop iteration, holding what \<^verbatim>\<open>isCancelled()\<close>,
  \<^verbatim>\<open>_rnd.next()\<close>, the driver and \<^verbatim>\<open>processVigil\<close> answer in that iteration.
  The local variables that live across iterations (\<^verbatim>\<open>hgSet\<close>, the memory behind
  \<^verbatim>\<open>pHgGet\<close>, \<^verbatim>\<open>bytesReturned\<close>) are an explicit state, threaded through the loop.

  Not modelled: the failure of \<^verbatim>\<open>malloc\<close> and \<^verbatim>\<open>CreateEvent\<close> (the source
  checks neither), exceptions thrown by the collaborators, and the contents of the
  \<^verbatim>\<open>OVERLAPPED\<close> structure other than its event handle.
\<close>

subsection \<open>Windows types and constants\<close>

type_synonym DWORD = "32 word"
type_synonym ULONG = "32 word"
type_synonym WCHAR = "16 word"
type_synonym BYTE = "8 word"
type_synonym HANDLE = "64 word"

definition INVALID_HANDLE_VALUE :: HANDLE where
  "INVALID_HANDLE_VALUE = - 1"

text \<open>The system error codes of \<^verbatim>\<open>winerror.h\<close> that the source compares against.\<close>

definition ERROR_FILE_NOT_FOUND :: DWORD where
  "ERROR_FILE_NOT_FOUND = 2"

definition ERROR_ACCESS_DENIED :: DWORD where
  "ERROR_ACCESS_DENIED = 5"

definition ERROR_DEV_NOT_EXIST :: DWORD where
  "ERROR_DEV_NOT_EXIST = 55"

definition ERROR_NO_MORE_ITEMS :: DWORD where
  "ERROR_NO_MORE_ITEMS = 259"

subsection \<open>The two request structures\<close>

text \<open>
  Modelled from the spec: the declarations of \<^verbatim>\<open>HIDGUARDIAN_GET_CREATE_REQUEST\<close> and
  \<^verbatim>\<open>HIDGUARDIAN_SET_CREATE_REQUEST\<close> are in \<^verbatim>\<open>HidGuardian.h\<close>, which is not
  among the sources. The fields are the ones \<^verbatim>\<open>runTask\<close> names; their types follow
  the use the source makes of them and section 6 of the specification (a correlation
  token, a process id, two wide strings, the hardware-id payload; a token and two
  boolean flags). The model is at the level of fields; the one fact of the layout that
  decides what \<^verbatim>\<open>runTask\<close> submits, the width of the two flags, is the parameter
  \<open>narrow_flags\<close> below.
\<close>

record HIDGUARDIAN_GET_CREATE_REQUEST =
  Size :: ULONG
  RequestId :: ULONG
  ProcessId :: ULONG
  DeviceId :: "WCHAR list"
  InstanceId :: "WCHAR list"
  HardwareIds :: "BYTE list"

record HIDGUARDIAN_SET_CREATE_REQUEST =
  RequestId :: ULONG
  IsAllowed :: bool
  IsSticky :: bool

text \<open>
  Lines 164-165 hand \<^verbatim>\<open>processVigil\<close> the addresses of the two flags as
  \<^verbatim>\<open>PBOOL\<close>, through \<^verbatim>\<open>reinterpret_cast\<close>: a store through either pointer is
  as wide as a \<^verbatim>\<open>BOOL\<close>, four bytes, whatever the width of the field it points to.
  \<open>store_flag narrow s x\<close> is the structure after the store \<open>x\<close> of \<^verbatim>\<open>TRUE\<close>
  or \<^verbatim>\<open>FALSE\<close> (1 or 0, the low byte first). When the flags are one byte wide and
  \<^verbatim>\<open>IsSticky\<close> follows \<^verbatim>\<open>IsAllowed\<close> (\<open>narrow\<close>), the upper bytes of a store
  through the pointer to \<^verbatim>\<open>IsAllowed\<close>, all zero, fall on \<^verbatim>\<open>IsSticky\<close>;
  when the flags are as wide as a \<^verbatim>\<open>BOOL\<close> the store is of the one field. A store
  through the pointer to \<^verbatim>\<open>IsSticky\<close> leaves \<^verbatim>\<open>IsAllowed\<close>, at the lower
  address, as it is. The bytes such a store writes after \<^verbatim>\<open>IsSticky\<close> are no field
  of the structure and are not modelled, nor are stores of other values than
  \<^verbatim>\<open>TRUE\<close> and \<^verbatim>\<open>FALSE\<close>.
\<close>

datatype flag_store = Store_IsAllowed bool | Store_IsSticky bool

fun store_flag ::
  "bool \<Rightarrow> HIDGUARDIAN_SET_CREATE_REQUEST \<Rightarrow> flag_store \<Rightarrow> HIDGUARDIAN_SET_CREATE_REQUEST"
where
  "store_flag narrow s (Store_IsAllowed b) =
     s\<lparr>IsAllowed := b, IsSticky := (if narrow then False else IsSticky s)\<rparr>"
| "store_flag narrow s (Store_IsSticky b) = s\<lparr>IsSticky := b\<rparr>"

subsection \<open>What the source does not declare\<close>

text \<open>
  The parameters of the model: the sizes that \<^verbatim>\<open>sizeof\<close> gives, the lengths of the
  fixed arrays of the header, the member \<^verbatim>\<open>_bufferSize\<close> (declared in
  \<^verbatim>\<open>GuardedDevice.h\<close>), whether the flags of
  \<^verbatim>\<open>HIDGUARDIAN_SET_CREATE_REQUEST\<close> are narrower than a \<^verbatim>\<open>BOOL\<close>, whether the
  logger is at debug level, the conversion of \<^verbatim>\<open>Poco::UnicodeConverter\<close> from
  UTF-16 to UTF-8, and the handle \<^verbatim>\<open>CreateEvent\<close> returns.
\<close>

record params =
  sizeof_GET :: nat
  sizeof_SET :: nat
  bufferSize :: nat
  deviceId_len :: nat
  instanceId_len :: nat
  narrow_flags :: bool
  is_debug :: bool
  convert :: "WCHAR list \<Rightarrow> string"
  hEvent :: HANDLE

subsection \<open>Events\<close>

datatype priority = PRIO_ERROR | PRIO_INFORMATION | PRIO_DEBUG

datatype fmt_arg = ArgStr string | ArgUL ULONG | ArgBool bool

datatype event =
    Log priority string "fmt_arg list"
  | CreateFileA string
  | Rnd_seed
  | CreateEvent
  | Malloc ULONG
  | IsCancelled bool
  | Rnd_next ULONG
  | DeviceIoControl_GET HANDLE HIDGUARDIAN_GET_CREATE_REQUEST ULONG ULONG
  | GetOverlappedResult HANDLE "DWORD option"
  | Sleep nat
  | ProcessVigil "BYTE list" string string ULONG
  | DeviceIoControl_SET HANDLE HIDGUARDIAN_SET_CREATE_REQUEST nat
  | Free
  | CloseHandle HANDLE

text \<open>
  \<^item> \<open>Log pr fmt args\<close>: a call of the logger's method for the priority \<open>pr\<close>, with
    the format and its arguments; whether the logger writes the message is the logger's
    matter. The calls the source guards with \<^verbatim>\<open>logger.is(PRIO_DEBUG)\<close> are made
    when \<open>is_debug\<close> holds.
  \<^item> \<open>IsCancelled b\<close>: the call of \<^verbatim>\<open>isCancelled()\<close> in the loop condition (line
    90) and its result. \<open>Sleep ms\<close>: the call \<^verbatim>\<open>sleep(ms)\<close> of line 126, in
    milliseconds.
  \<^item> \<open>DeviceIoControl_GET h buf n m\<close>: the call of lines 106-115, with the contents of
    the buffer as the driver receives it, \<^verbatim>\<open>nInBufferSize\<close> and \<^verbatim>\<open>nOutBufferSize\<close>.
  \<^item> \<open>GetOverlappedResult h r\<close>: the wait of line 117 or 192; \<open>r = None\<close> when it
    returns non-zero, \<open>Some code\<close> when it returns 0 and \<^verbatim>\<open>GetLastError()\<close> is
    \<open>code\<close>.
  \<^item> \<open>DeviceIoControl_SET h s n\<close>: the call of lines 181-190, with the structure
    submitted and its size.
\<close>

fun is_GET :: "event \<Rightarrow> bool" where
  "is_GET (DeviceIoControl_GET h b n m) = True"
| "is_GET _ = False"

fun is_SET :: "event \<Rightarrow> bool" where
  "is_SET (DeviceIoControl_SET h s n) = True"
| "is_SET _ = False"

fun is_Vigil :: "event \<Rightarrow> bool" where
  "is_Vigil (ProcessVigil hw dev inst pid) = True"
| "is_Vigil _ = False"

fun is_Sleep :: "event \<Rightarrow> bool" where
  "is_Sleep (Sleep ms) = True"
| "is_Sleep _ = False"

fun is_IsCancelled :: "event \<Rightarrow> bool" where
  "is_IsCancelled (IsCancelled b) = True"
| "is_IsCancelled _ = False"

fun is_release :: "event \<Rightarrow> bool" where
  "is_release Free = True"
| "is_release (CloseHandle h) = True"
| "is_release _ = False"

fun is_Malloc :: "event \<Rightarrow> bool" where
  "is_Malloc (Malloc n) = True"
| "is_Malloc _ = False"

fun is_Log_at :: "priority \<Rightarrow> event \<Rightarrow> bool" where
  "is_Log_at q (Log pr msg args) = (pr = q)"
| "is_Log_at q _ = False"

subsection \<open>The constructor (lines 30-68) and the destructor (lines 216-222)\<close>

datatype exn = runtime_error string

record GuardedDevice =
  devicePath :: string
  deviceHandle :: HANDLE

text \<open>
  \<open>constructor path h err\<close>: \<open>h\<close> is what \<^verbatim>\<open>CreateFileA\<close> returns and \<open>err\<close> what
  \<^verbatim>\<open>GetLastError()\<close> returns after it. A constructor that throws leaves no object:
  the result is \<open>Inl\<close> of the exception.
\<close>

definition constructor :: "string \<Rightarrow> HANDLE \<Rightarrow> DWORD \<Rightarrow> event list \<times> (exn + GuardedDevice)" where
  "constructor path h err =
     (let t = [Log PRIO_DEBUG ''Trying to open device %s'' [ArgStr path], CreateFileA path]
      in if h = INVALID_HANDLE_VALUE then
           if err = ERROR_FILE_NOT_FOUND then
             (t, Inl (runtime_error
                ''Couldn't open the desired device, make sure the provided path is correct.''))
           else if err = ERROR_ACCESS_DENIED then
             (t, Inl (runtime_error
                ''Couldn't access device, please make sure the device isn't already guarded.''))
           else
             (t, Inl (runtime_error ''Couldn't access device, unknown error.''))
         else
           (t @ [Log PRIO_DEBUG ''Device opened'' []],
            Inr \<lparr>devicePath = path, deviceHandle = h\<rparr>))"

definition destructor :: "GuardedDevice \<Rightarrow> event list" where
  "destructor d =
     (if deviceHandle d \<noteq> INVALID_HANDLE_VALUE then [CloseHandle (deviceHandle d)] else [])"

subsection \<open>The locals of \<^verbatim>\<open>runTask\<close> and the answers of its collaborators\<close>

record locals =
  bytesReturned :: DWORD
  hgSet :: HIDGUARDIAN_SET_CREATE_REQUEST
  pHgGet :: HIDGUARDIAN_GET_CREATE_REQUEST

text \<open>
  One iteration's answers.
  \<^item> \<open>cancelled\<close>: what \<^verbatim>\<open>isCancelled()\<close> returns at line 90;
  \<^item> \<open>rnd_next\<close>: what \<^verbatim>\<open>_rnd.next()\<close> returns at line 96;
  \<^item> \<open>get_written\<close>: what the driver leaves in the buffer when the operation of lines
    106-115 completes, as a function of the buffer it was given;
  \<^item> \<open>get_error\<close>: the result of the wait of line 117 (\<open>None\<close>: success);
  \<^item> \<open>vigil\<close>: the stores \<^verbatim>\<open>processVigil\<close> makes through its two out-pointers, in
    the order it makes them, as a function of its four inputs;
  \<^item> \<open>set_error\<close>: the result of the wait of line 192;
  \<^item> \<open>get_bytes\<close>, \<open>set_bytes\<close>: what the two waits store in \<^verbatim>\<open>bytesReturned\<close>.
\<close>

record cycle_env =
  cancelled :: bool
  rnd_next :: ULONG
  get_written :: "HIDGUARDIAN_GET_CREATE_REQUEST \<Rightarrow> HIDGUARDIAN_GET_CREATE_REQUEST"
  get_error :: "DWORD option"
  get_bytes :: DWORD
  vigil :: "BYTE list \<Rightarrow> string \<Rightarrow> string \<Rightarrow> ULONG \<Rightarrow> flag_store list"
  set_error :: "DWORD option"
  set_bytes :: DWORD

subsection \<open>\<^verbatim>\<open>runTask\<close>: before the loop\<close>

text \<open>
  Line 84: \<^verbatim>\<open>const ULONG pHgGetSize = sizeof(HIDGUARDIAN_GET_CREATE_REQUEST) + _bufferSize\<close>.
  The sum is stored in a \<^verbatim>\<open>ULONG\<close>, so it is taken modulo \<open>2 ^ 32\<close>.
\<close>

definition pHgGetSize :: "params \<Rightarrow> ULONG" where
  "pHgGetSize p = word_of_nat ((sizeof_GET p + bufferSize p) mod 2 ^ 32)"

text \<open>
  \<^verbatim>\<open>ZeroMemory\<close> over each of the two structures: every field is zero (a flag that is
  zero is \<open>False\<close>), every element of every array is zero. Line 93 zeroes
  \<^verbatim>\<open>pHgGetSize\<close> bytes, the size of the allocation: the hardware-id payload is what
  the allocation holds after the header, which is \<^verbatim>\<open>_bufferSize\<close> bytes when the sum
  of line 84 has not wrapped. When the allocation is smaller than the header, the fields
  of the header that the source writes and reads lie partly outside it; the model keeps
  the fields and says nothing of that memory.
\<close>

definition ZeroMemory_SET :: HIDGUARDIAN_SET_CREATE_REQUEST where
  "ZeroMemory_SET =
     \<lparr>HIDGUARDIAN_SET_CREATE_REQUEST.RequestId = 0, IsAllowed = False, IsSticky = False\<rparr>"

definition ZeroMemory_GET :: "params \<Rightarrow> HIDGUARDIAN_GET_CREATE_REQUEST" where
  "ZeroMemory_GET p =
     \<lparr>Size = 0, HIDGUARDIAN_GET_CREATE_REQUEST.RequestId = 0, ProcessId = 0,
      DeviceId = replicate (deviceId_len p) 0,
      InstanceId = replicate (instanceId_len p) 0,
      HardwareIds = replicate (unat (pHgGetSize p) - sizeof_GET p) 0\<rparr>"

subsection \<open>\<^verbatim>\<open>runTask\<close>: one iteration of the loop (lines 92-207)\<close>

text \<open>
  Lines 92-98: both structures are zeroed, then the size and a fresh request id are
  written into the buffer. The result is the events and the state.
\<close>

definition prepare :: "params \<Rightarrow> cycle_env \<Rightarrow> locals \<Rightarrow> event list \<times> locals" where
  "prepare p e st =
     (let st = st\<lparr>hgSet := ZeroMemory_SET\<rparr>;
          st = st\<lparr>pHgGet := ZeroMemory_GET p\<rparr>;
          st = st\<lparr>pHgGet := (pHgGet st)\<lparr>Size := pHgGetSize p\<rparr>\<rparr>;
          reqId = rnd_next e;
          st = st\<lparr>pHgGet := (pHgGet st)\<lparr>HIDGUARDIAN_GET_CREATE_REQUEST.RequestId := reqId\<rparr>\<rparr>
      in ([Rnd_next reqId] @
          (if is_debug p then
             [Log PRIO_DEBUG ''Looking for quests (ID: %lu)''
                [ArgUL (HIDGUARDIAN_GET_CREATE_REQUEST.RequestId (pHgGet st))]]
           else []),
          st))"

text \<open>
  Lines 106-117: the buffer is handed to the driver, in and out, with its size; the wait
  returns once the driver has completed the operation and left its answer in the buffer.
\<close>

definition poll :: "GuardedDevice \<Rightarrow> params \<Rightarrow> cycle_env \<Rightarrow> locals \<Rightarrow> event list \<times> locals" where
  "poll d p e st =
     ([DeviceIoControl_GET (deviceHandle d) (pHgGet st) (pHgGetSize p) (pHgGetSize p),
       GetOverlappedResult (deviceHandle d) (get_error e)],
      st\<lparr>pHgGet := get_written e (pHgGet st), bytesReturned := get_bytes e\<rparr>)"

text \<open>
  Lines 140-176: the two identifiers are converted, the request id is copied from the
  buffer into \<^verbatim>\<open>hgSet\<close>, and \<^verbatim>\<open>processVigil\<close> stores the decision through the
  pointers to the two flags of \<^verbatim>\<open>hgSet\<close>. The conversion reads a wide string from
  its first character to the first NUL: \<open>c_str\<close> is that part of an array. (When the
  array holds no NUL the source reads on past it; the model stops at the array's end.)
\<close>

definition c_str :: "WCHAR list \<Rightarrow> WCHAR list" where
  "c_str ws = takeWhile (\<lambda>c. c \<noteq> 0) ws"

definition decide :: "params \<Rightarrow> cycle_env \<Rightarrow> locals \<Rightarrow> event list \<times> locals" where
  "decide p e st =
     (let deviceId = convert p (c_str (DeviceId (pHgGet st)));
          instanceId = convert p (c_str (InstanceId (pHgGet st)));
          reqId = HIDGUARDIAN_GET_CREATE_REQUEST.RequestId (pHgGet st);
          t1 = (if is_debug p then
                  [Log PRIO_DEBUG ''DeviceId = %s'' [ArgStr deviceId],
                   Log PRIO_DEBUG ''InstanceId = %s'' [ArgStr instanceId],
                   Log PRIO_DEBUG ''Request (ID: %lu) completed'' [ArgUL reqId],
                   Log PRIO_DEBUG ''PID: %lu'' [ArgUL (ProcessId (pHgGet st))]]
                else []);
          st = st\<lparr>hgSet := (hgSet st)\<lparr>HIDGUARDIAN_SET_CREATE_REQUEST.RequestId := reqId\<rparr>\<rparr>;
          t2 = (if is_debug p then
                  [Log PRIO_DEBUG ''Start processing Vigil (ID: %lu)'' [ArgUL reqId]]
                else []);
          t3 = [ProcessVigil (HardwareIds (pHgGet st)) deviceId instanceId
                  (ProcessId (pHgGet st))];
          stores =
             vigil e (HardwareIds (pHgGet st)) deviceId instanceId (ProcessId (pHgGet st));
          st = st\<lparr>hgSet := foldl (store_flag (narrow_flags p)) (hgSet st) stores\<rparr>;
          t4 = (if is_debug p then
                  [Log PRIO_DEBUG ''End processing Vigil (ID: %lu)'' [ArgUL reqId]]
                else []);
          t5 = (if is_debug p then
                  [Log PRIO_DEBUG ''IsAllowed: %b'' [ArgBool (IsAllowed (hgSet st))],
                   Log PRIO_DEBUG ''IsSticky: %b'' [ArgBool (IsSticky (hgSet st))],
                   Log PRIO_DEBUG ''Sending permission request %lu'' [ArgUL reqId]]
                else [])
      in (t1 @ t2 @ t3 @ t4 @ t5, st))"

text \<open>Lines 181-192: \<^verbatim>\<open>hgSet\<close> is handed to the driver, and the wait returns.\<close>

definition submit :: "GuardedDevice \<Rightarrow> params \<Rightarrow> cycle_env \<Rightarrow> locals \<Rightarrow> event list \<times> locals" where
  "submit d p e st =
     ([DeviceIoControl_SET (deviceHandle d) (hgSet st) (sizeof_SET p),
       GetOverlappedResult (deviceHandle d) (set_error e)],
      st\<lparr>bytesReturned := set_bytes e\<rparr>)"

text \<open>
  The body of the \<^verbatim>\<open>while\<close>. The third component tells how the body ends: \<open>True\<close>
  when control goes back to the loop condition (\<^verbatim>\<open>continue\<close> at line 127, or the end
  of the body), \<open>False\<close> at a \<^verbatim>\<open>break\<close> (lines 133, 137, 199, 203).
\<close>

definition loop_body ::
  "GuardedDevice \<Rightarrow> params \<Rightarrow> cycle_env \<Rightarrow> locals \<Rightarrow> event list \<times> locals \<times> bool" where
  "loop_body d p e st =
     (let (t1, st) = prepare p e st;
          (t2, st) = poll d p e st
      in case get_error e of
           Some error \<Rightarrow>
             if error = ERROR_NO_MORE_ITEMS then
               (t1 @ t2 @ [Sleep 200], st, True)
             else if error = ERROR_DEV_NOT_EXIST then
               (t1 @ t2 @
                [Log PRIO_DEBUG ''Device got removed/powered down, terminating thread'' []],
                st, False)
             else
               (t1 @ t2 @
                [Log PRIO_ERROR ''Request (ID: %lu) failed: %lu''
                   [ArgUL (HIDGUARDIAN_GET_CREATE_REQUEST.RequestId (pHgGet st)), ArgUL error]],
                st, False)
         | None \<Rightarrow>
             (let (t3, st) = decide p e st;
                  (t4, st) = submit d p e st
              in case set_error e of
                   Some error \<Rightarrow>
                     if error = ERROR_DEV_NOT_EXIST then
                       (t1 @ t2 @ t3 @ t4 @
                        [Log PRIO_DEBUG
                           ''Device got removed/powered down, terminating thread'' []],
                        st, False)
                     else
                       (t1 @ t2 @ t3 @ t4 @
                        [Log PRIO_ERROR ''Permission request %lu failed''
                           [ArgUL (HIDGUARDIAN_GET_CREATE_REQUEST.RequestId (pHgGet st))]],
                        st, False)
                 | None \<Rightarrow>
                     (t1 @ t2 @ t3 @ t4 @
                      (if is_debug p then
                         [Log PRIO_DEBUG ''Permission request %lu finished successfully''
                            [ArgUL (HIDGUARDIAN_GET_CREATE_REQUEST.RequestId (pHgGet st))]]
                       else []),
                      st, True)))"

subsection \<open>\<^verbatim>\<open>runTask\<close>: the loop (lines 90-208) and the whole function\<close>

text \<open>
  The loop runs as long as its collaborators answer, which may be forever. The model runs
  it over a finite list of answers, one record per evaluation of the loop condition, and
  tells how far it got: \<open>Returned\<close> when the loop was left, \<open>Running\<close> when the answers
  are used up and the loop is still going. The events come in one list per evaluation of
  the condition: the check itself, then what the body did.
\<close>

datatype outcome = Returned | Running

fun guard_loop ::
  "GuardedDevice \<Rightarrow> params \<Rightarrow> cycle_env list \<Rightarrow> locals \<Rightarrow> event list list \<times> locals \<times> outcome"
where
  "guard_loop d p [] st = ([], st, Running)"
| "guard_loop d p (e # es) st =
     (if cancelled e then ([[IsCancelled True]], st, Returned)
      else
        case loop_body d p e st of
          (t, st', continue) \<Rightarrow>
            if continue then
              (case guard_loop d p es st' of
                 (ts, st'', out) \<Rightarrow> ((IsCancelled False # t) # ts, st'', out))
            else ([IsCancelled False # t], st', Returned))"

text \<open>
  \<open>runTask d p uninit es\<close>. \<^verbatim>\<open>hgSet\<close> is declared without an initialiser and
  \<^verbatim>\<open>malloc\<close> does not clear what it returns: \<open>uninit\<close> is what the two hold when the
  loop is entered. \<^verbatim>\<open>bytesReturned\<close> starts at 0 (line 80). Lines 210-213 run when the
  loop has been left.
\<close>

definition runTask ::
  "GuardedDevice \<Rightarrow> params \<Rightarrow> locals \<Rightarrow> cycle_env list \<Rightarrow> event list \<times> outcome" where
  "runTask d p uninit es =
     (let t0 = [Log PRIO_DEBUG ''Worker running (%s)'' [ArgStr (devicePath d)],
                Rnd_seed, CreateEvent, Malloc (pHgGetSize p)];
          (ts, st, out) = guard_loop d p es (uninit\<lparr>bytesReturned := 0\<rparr>)
      in (t0 @ concat ts @
          (if out = Returned then
             [Free, CloseHandle (hEvent p), Log PRIO_INFORMATION ''No more guarding'' []]
           else []),
          out))"


subsection \<open>Notation for the statements\<close>

text \<open>
  \<open>request_buffer p reqId\<close> is the buffer as lines 93-98 leave it: zeroed, then stamped
  with its size and the request id. \<open>polled p e\<close> is the buffer as the driver leaves it
  when the wait of line 117 returns. \<open>decision p e\<close> is the stores \<^verbatim>\<open>processVigil\<close>
  makes for that buffer.
\<close>

abbreviation request_buffer :: "params \<Rightarrow> ULONG \<Rightarrow> HIDGUARDIAN_GET_CREATE_REQUEST" where
  "request_buffer p reqId \<equiv>
     (ZeroMemory_GET p)\<lparr>Size := pHgGetSize p,
        HIDGUARDIAN_GET_CREATE_REQUEST.RequestId := reqId\<rparr>"

abbreviation polled :: "params \<Rightarrow> cycle_env \<Rightarrow> HIDGUARDIAN_GET_CREATE_REQUEST" where
  "polled p e \<equiv> get_written e (request_buffer p (rnd_next e))"

abbreviation decision :: "params \<Rightarrow> cycle_env \<Rightarrow> flag_store list" where
  "decision p e \<equiv>
     vigil e (HardwareIds (polled p e)) (convert p (c_str (DeviceId (polled p e))))
       (convert p (c_str (InstanceId (polled p e)))) (ProcessId (polled p e))"

text \<open>
  \<open>submitted p e\<close> is \<^verbatim>\<open>hgSet\<close> as line 181 hands it to the driver: zeroed at line
  92, given the request id of the polled buffer at line 154, then written by the stores
  of \<^verbatim>\<open>processVigil\<close> in their order.
\<close>

abbreviation submitted :: "params \<Rightarrow> cycle_env \<Rightarrow> HIDGUARDIAN_SET_CREATE_REQUEST" where
  "submitted p e \<equiv>
     foldl (store_flag (narrow_flags p))
       \<lparr>HIDGUARDIAN_SET_CREATE_REQUEST.RequestId =
          HIDGUARDIAN_GET_CREATE_REQUEST.RequestId (polled p e),
        IsAllowed = False, IsSticky = False\<rparr>
       (decision p e)"

subsection \<open>Concrete inputs\<close>

text \<open>
  A device, parameters and answers to run the model on: an idle cycle, a cycle with the
  request of the specification's end-to-end example (process 4242, decision deny and
  sticky), and variants of the two where the driver fails or the task is cancelled.
  \<open>p_narrow\<close> has one-byte flags, and \<open>e_sticky_first\<close> a \<^verbatim>\<open>processVigil\<close> that
  stores the sticky flag before the allowed flag. \<open>p_wrap\<close> has a capacity with which
  the sum of line 84 does not fit a \<^verbatim>\<open>ULONG\<close>.
\<close>

definition d0 :: GuardedDevice where
  "d0 = \<lparr>devicePath = ''HID#VID_1234&PID_5678'', deviceHandle = 420\<rparr>"

definition p0 :: params where
  "p0 = \<lparr>sizeof_GET = 24, sizeof_SET = 8, bufferSize = 4, deviceId_len = 2,
          instanceId_len = 2, narrow_flags = False, is_debug = False,
          convert = (\<lambda>ws. map (\<lambda>w. CHR ''#'') ws),
          hEvent = 500\<rparr>"

definition garbage :: locals where
  "garbage =
     \<lparr>bytesReturned = 99,
      hgSet = \<lparr>HIDGUARDIAN_SET_CREATE_REQUEST.RequestId = 57005, IsAllowed = True,
               IsSticky = True\<rparr>,
      pHgGet = \<lparr>Size = 1, HIDGUARDIAN_GET_CREATE_REQUEST.RequestId = 48879, ProcessId = 666,
                DeviceId = [65, 66], InstanceId = [67, 68], HardwareIds = [9, 9, 9, 9]\<rparr>\<rparr>"

definition e_idle :: cycle_env where
  "e_idle =
     \<lparr>cancelled = False, rnd_next = 7, get_written = (\<lambda>b. b),
      get_error = Some ERROR_NO_MORE_ITEMS, get_bytes = 0,
      vigil = (\<lambda>hw dev inst pid. []), set_error = None, set_bytes = 0\<rparr>"

definition e_request :: cycle_env where
  "e_request =
     \<lparr>cancelled = False, rnd_next = 11,
      get_written = (\<lambda>b. b\<lparr>HIDGUARDIAN_GET_CREATE_REQUEST.RequestId := 42, ProcessId := 4242,
                              DeviceId := [72, 0], InstanceId := [49, 50],
                              HardwareIds := [72, 0, 0, 0]\<rparr>),
      get_error = None, get_bytes = 28,
      vigil = (\<lambda>hw dev inst pid. [Store_IsAllowed (pid \<noteq> 4242), Store_IsSticky True]),
      set_error = None, set_bytes = 0\<rparr>"

definition e_cancel :: cycle_env where
  "e_cancel = e_idle\<lparr>cancelled := True\<rparr>"

definition e_gone_poll :: cycle_env where
  "e_gone_poll = e_idle\<lparr>get_error := Some ERROR_DEV_NOT_EXIST\<rparr>"

definition e_gone_submit :: cycle_env where
  "e_gone_submit = e_request\<lparr>set_error := Some ERROR_DEV_NOT_EXIST\<rparr>"

definition e_fatal_poll :: cycle_env where
  "e_fatal_poll = e_idle\<lparr>get_error := Some 31\<rparr>"

definition e_fatal_submit :: cycle_env where
  "e_fatal_submit = e_request\<lparr>set_error := Some 31\<rparr>"

definition e_unset :: cycle_env where
  "e_unset = e_request\<lparr>vigil := (\<lambda>hw dev inst pid. [])\<rparr>"



definition p_wrap :: params where
  "p_wrap = p0\<lparr>bufferSize := 4294967295\<rparr>"

definition e_echo :: cycle_env where
  "e_echo = e_request\<lparr>get_written := (\<lambda>b. b\<lparr>ProcessId := 4242\<rparr>)\<rparr>"

lemmas example_defs =
  d0_def p0_def garbage_def e_idle_def e_request_def e_cancel_def e_gone_poll_def
  e_gone_submit_def e_fatal_poll_def e_fatal_submit_def e_unset_def c_str_def

lemmas const_defs =
  INVALID_HANDLE_VALUE_def ERROR_FILE_NOT_FOUND_def ERROR_ACCESS_DENIED_def
  ERROR_DEV_NOT_EXIST_def ERROR_NO_MORE_ITEMS_def

section \<open>Properties of the phases of one iteration\<close>

lemma fst_prepare:
  "fst (prepare p e st) =
     Rnd_next (rnd_next e) #
     (if is_debug p then [Log PRIO_DEBUG ''Looking for quests (ID: %lu)'' [ArgUL (rnd_next e)]]
      else [])"
  by (simp add: prepare_def Let_def)

lemma snd_prepare:
  "snd (prepare p e st) =
     st\<lparr>hgSet := ZeroMemory_SET,
        pHgGet := (ZeroMemory_GET p)\<lparr>Size := pHgGetSize p,
                    HIDGUARDIAN_GET_CREATE_REQUEST.RequestId := rnd_next e\<rparr>\<rparr>"
  by (simp add: prepare_def Let_def)

lemma fst_poll:
  "fst (poll d p e st) =
     [DeviceIoControl_GET (deviceHandle d) (pHgGet st) (pHgGetSize p) (pHgGetSize p),
      GetOverlappedResult (deviceHandle d) (get_error e)]"
  by (simp add: poll_def)

lemma snd_poll:
  "snd (poll d p e st) = st\<lparr>pHgGet := get_written e (pHgGet st), bytesReturned := get_bytes e\<rparr>"
  by (simp add: poll_def)

lemma fst_submit:
  "fst (submit d p e st) =
     [DeviceIoControl_SET (deviceHandle d) (hgSet st) (sizeof_SET p),
      GetOverlappedResult (deviceHandle d) (set_error e)]"
  by (simp add: submit_def)

lemma snd_submit: "snd (submit d p e st) = st\<lparr>bytesReturned := set_bytes e\<rparr>"
  by (simp add: submit_def)

lemma RequestId_stores:
  "HIDGUARDIAN_SET_CREATE_REQUEST.RequestId (foldl (store_flag n) s xs) =
   HIDGUARDIAN_SET_CREATE_REQUEST.RequestId s"
proof (induction xs arbitrary: s)
  case Nil
  then show ?case by simp
next
  case (Cons x xs)
  then show ?case by (cases x) simp_all
qed

lemma IsAllowed_unstored:
  "\<forall>b. Store_IsAllowed b \<notin> set xs \<Longrightarrow> IsAllowed (foldl (store_flag n) s xs) = IsAllowed s"
proof (induction xs arbitrary: s)
  case Nil
  then show ?case by simp
next
  case (Cons x xs)
  from Cons.prems have x: "\<forall>b. x \<noteq> Store_IsAllowed b" and xs: "\<forall>b. Store_IsAllowed b \<notin> set xs"
    by auto
  from x Cons.IH [OF xs] show ?case by (cases x) auto
qed

lemma IsSticky_unstored:
  "\<forall>b. Store_IsSticky b \<notin> set xs \<Longrightarrow> \<not> IsSticky s \<Longrightarrow>
   \<not> IsSticky (foldl (store_flag n) s xs)"
proof (induction xs arbitrary: s)
  case Nil
  then show ?case by simp
next
  case (Cons x xs)
  from Cons.prems have x: "\<forall>b. x \<noteq> Store_IsSticky b" and xs: "\<forall>b. Store_IsSticky b \<notin> set xs"
    by auto
  from x Cons.prems(2) Cons.IH [OF xs] show ?case by (cases x) auto
qed

lemma stores_in_parameter_order:
  "foldl (store_flag n) s [Store_IsAllowed a, Store_IsSticky b] =
     s\<lparr>IsAllowed := a, IsSticky := b\<rparr>"
  by simp

lemma stores_that_fit:
  "foldl (store_flag False) s [Store_IsSticky b, Store_IsAllowed a] =
     s\<lparr>IsAllowed := a, IsSticky := b\<rparr>"
  by simp

lemma hgSet_decide:
  "hgSet (snd (decide p e st)) =
     foldl (store_flag (narrow_flags p))
       ((hgSet st)\<lparr>HIDGUARDIAN_SET_CREATE_REQUEST.RequestId :=
          HIDGUARDIAN_GET_CREATE_REQUEST.RequestId (pHgGet st)\<rparr>)
       (vigil e (HardwareIds (pHgGet st)) (convert p (c_str (DeviceId (pHgGet st))))
          (convert p (c_str (InstanceId (pHgGet st)))) (ProcessId (pHgGet st)))"
  by (simp add: decide_def Let_def split_beta)

lemma pHgGet_decide: "pHgGet (snd (decide p e st)) = pHgGet st"
  by (simp add: decide_def Let_def split_beta)

lemma bytesReturned_decide: "bytesReturned (snd (decide p e st)) = bytesReturned st"
  by (simp add: decide_def Let_def split_beta)

lemma decide_interactions:
  "filter (\<lambda>ev. is_GET ev \<or> is_Vigil ev \<or> is_SET ev) (fst (decide p e st)) =
     [ProcessVigil (HardwareIds (pHgGet st)) (convert p (c_str (DeviceId (pHgGet st))))
        (convert p (c_str (InstanceId (pHgGet st)))) (ProcessId (pHgGet st))]"
  by (simp add: decide_def Let_def split_beta)

lemma decide_no_check: "filter is_IsCancelled (fst (decide p e st)) = []"
  by (simp add: decide_def Let_def split_beta)

lemma decide_no_release: "filter is_release (fst (decide p e st)) = []"
  by (simp add: decide_def Let_def split_beta)


lemma decide_no_error_log: "filter (is_Log_at PRIO_ERROR) (fst (decide p e st)) = []"
  by (simp add: decide_def Let_def split_beta)

lemma poll_after_prepare:
  "snd (poll d p e (snd (prepare p e st))) =
     \<lparr>bytesReturned = get_bytes e, hgSet = ZeroMemory_SET, pHgGet = polled p e\<rparr>"
  by (cases st) (simp add: snd_poll snd_prepare)

lemma fst_poll_after_prepare:
  "fst (poll d p e (snd (prepare p e st))) =
     [DeviceIoControl_GET (deviceHandle d) (request_buffer p (rnd_next e))
        (pHgGetSize p) (pHgGetSize p),
      GetOverlappedResult (deviceHandle d) (get_error e)]"
  by (simp add: fst_poll snd_prepare)

lemmas body_simps =
  fst_prepare fst_poll_after_prepare poll_after_prepare fst_submit snd_submit
  hgSet_decide pHgGet_decide bytesReturned_decide

section \<open>Properties of the loop body\<close>

lemma loop_body_continue:
  "snd (snd (loop_body d p e st)) \<longleftrightarrow>
     get_error e = Some ERROR_NO_MORE_ITEMS \<or> (get_error e = None \<and> set_error e = None)"
  by (simp add: loop_body_def Let_def split_beta split: option.splits)

lemma loop_body_indep: "loop_body d p e st = loop_body d p e st'"
  by (simp add: loop_body_def Let_def split_beta fst_prepare fst_poll_after_prepare
        poll_after_prepare split: option.splits)

lemma loop_body_interactions:
  "get_error e = None \<Longrightarrow>
   filter (\<lambda>ev. is_GET ev \<or> is_Vigil ev \<or> is_SET ev) (fst (loop_body d p e st)) =
     [DeviceIoControl_GET (deviceHandle d) (request_buffer p (rnd_next e))
        (pHgGetSize p) (pHgGetSize p),
      ProcessVigil (HardwareIds (polled p e)) (convert p (c_str (DeviceId (polled p e))))
        (convert p (c_str (InstanceId (polled p e)))) (ProcessId (polled p e)),
      DeviceIoControl_SET (deviceHandle d) (submitted p e) (sizeof_SET p)]"
  by (simp add: loop_body_def Let_def split_beta body_simps decide_interactions
        ZeroMemory_SET_def split: option.splits)

lemma loop_body_failed_poll_interactions:
  "get_error e \<noteq> None \<Longrightarrow>
   filter (\<lambda>ev. is_GET ev \<or> is_Vigil ev \<or> is_SET ev) (fst (loop_body d p e st)) =
     [DeviceIoControl_GET (deviceHandle d) (request_buffer p (rnd_next e))
        (pHgGetSize p) (pHgGetSize p)]"
  by (auto simp add: loop_body_def Let_def split_beta body_simps split: option.splits)

lemma loop_body_no_check: "filter is_IsCancelled (fst (loop_body d p e st)) = []"
  by (simp add: loop_body_def Let_def split_beta body_simps decide_no_check
        split: option.splits)

lemma loop_body_no_release: "filter is_release (fst (loop_body d p e st)) = []"
  by (simp add: loop_body_def Let_def split_beta body_simps decide_no_release
        split: option.splits)

lemma loop_body_idle:
  "get_error e = Some ERROR_NO_MORE_ITEMS \<Longrightarrow>
   fst (loop_body d p e st) =
     Rnd_next (rnd_next e) #
     (if is_debug p then [Log PRIO_DEBUG ''Looking for quests (ID: %lu)'' [ArgUL (rnd_next e)]]
      else []) @
     [DeviceIoControl_GET (deviceHandle d) (request_buffer p (rnd_next e))
        (pHgGetSize p) (pHgGetSize p),
      GetOverlappedResult (deviceHandle d) (Some ERROR_NO_MORE_ITEMS),
      Sleep 200]"
  by (simp add: loop_body_def Let_def split_beta body_simps)


lemma decide_no_SET: "filter is_SET (fst (decide p e st)) = []"
  by (simp add: decide_def Let_def split_beta)

lemma decide_no_GET: "filter is_GET (fst (decide p e st)) = []"
  by (simp add: decide_def Let_def split_beta)

lemma decide_no_Malloc: "filter is_Malloc (fst (decide p e st)) = []"
  by (simp add: decide_def Let_def split_beta)

lemma loop_body_GET:
  "filter is_GET (fst (loop_body d p e st)) =
     [DeviceIoControl_GET (deviceHandle d) (request_buffer p (rnd_next e))
        (pHgGetSize p) (pHgGetSize p)]"
  by (simp add: loop_body_def Let_def split_beta body_simps decide_no_GET
        split: option.splits)

lemma loop_body_no_Malloc: "filter is_Malloc (fst (loop_body d p e st)) = []"
  by (simp add: loop_body_def Let_def split_beta body_simps decide_no_Malloc
        split: option.splits)

lemma loop_body_SET:
  "filter is_SET (fst (loop_body d p e st)) =
     (if get_error e = None then
        [DeviceIoControl_SET (deviceHandle d) (submitted p e) (sizeof_SET p)]
      else [])"
  by (simp add: loop_body_def Let_def split_beta body_simps decide_no_SET
        ZeroMemory_SET_def split: option.splits)

lemma loop_body_error_log:
  "filter (is_Log_at PRIO_ERROR) (fst (loop_body d p e st)) =
     (case get_error e of
        Some error \<Rightarrow>
          if error = ERROR_NO_MORE_ITEMS \<or> error = ERROR_DEV_NOT_EXIST then []
          else [Log PRIO_ERROR ''Request (ID: %lu) failed: %lu''
                  [ArgUL (HIDGUARDIAN_GET_CREATE_REQUEST.RequestId (polled p e)), ArgUL error]]
      | None \<Rightarrow>
          (case set_error e of
             Some error \<Rightarrow>
               if error = ERROR_DEV_NOT_EXIST then []
               else [Log PRIO_ERROR ''Permission request %lu failed''
                       [ArgUL (HIDGUARDIAN_GET_CREATE_REQUEST.RequestId (polled p e))]]
           | None \<Rightarrow> []))"
  by (simp add: loop_body_def Let_def split_beta body_simps decide_no_error_log
        split: option.splits)



section \<open>Properties of the loop\<close>

lemma guard_loop_Cons:
  "guard_loop d p (e # es) st =
     (if cancelled e then ([[IsCancelled True]], st, Returned)
      else if snd (snd (loop_body d p e st)) then
        ((IsCancelled False # fst (loop_body d p e st)) #
           fst (guard_loop d p es (fst (snd (loop_body d p e st)))),
         snd (guard_loop d p es (fst (snd (loop_body d p e st)))))
      else ([IsCancelled False # fst (loop_body d p e st)], fst (snd (loop_body d p e st)),
            Returned))"
  by (simp add: split_beta)

lemma guard_loop_fst_indep: "fst (guard_loop d p es st) = fst (guard_loop d p es st')"
  by (cases es) (simp_all add: guard_loop_Cons loop_body_indep [of d p _ st st'] del: guard_loop.simps(2))

lemma guard_loop_out_indep:
  "snd (snd (guard_loop d p es st)) = snd (snd (guard_loop d p es st'))"
  by (cases es) (simp_all add: guard_loop_Cons loop_body_indep [of d p _ st st'] del: guard_loop.simps(2))

lemma guard_loop_append_Running:
  "snd (snd (guard_loop d p pre st)) = Running \<Longrightarrow>
   guard_loop d p (pre @ es) st =
     (fst (guard_loop d p pre st) @ fst (guard_loop d p es (fst (snd (guard_loop d p pre st)))),
      snd (guard_loop d p es (fst (snd (guard_loop d p pre st)))))"
proof (induction pre arbitrary: st)
  case Nil
  then show ?case by simp
next
  case (Cons e pre)
  then show ?case
    by (simp add: guard_loop_Cons del: guard_loop.simps(2) split: if_splits)
qed

lemma guard_loop_append_Returned:
  "snd (snd (guard_loop d p pre st)) = Returned \<Longrightarrow>
   guard_loop d p (pre @ es) st = guard_loop d p pre st"
proof (induction pre arbitrary: st)
  case Nil
  then show ?case by simp
next
  case (Cons e pre)
  then show ?case
    by (simp add: guard_loop_Cons del: guard_loop.simps(2) split: if_splits)
qed

lemma guard_loop_Running_length:
  "snd (snd (guard_loop d p es st)) = Running \<Longrightarrow>
   length (fst (guard_loop d p es st)) = length es"
proof (induction es arbitrary: st)
  case Nil
  then show ?case by simp
next
  case (Cons e es)
  then show ?case
    by (simp add: guard_loop_Cons del: guard_loop.simps(2) split: if_splits)
qed

lemma guard_loop_length_le: "length (fst (guard_loop d p es st)) \<le> length es"
  by (induction es arbitrary: st) (simp_all add: guard_loop_Cons del: guard_loop.simps(2))

lemma guard_loop_segment:
  "i < length (fst (guard_loop d p es st)) \<Longrightarrow>
   fst (guard_loop d p es st) ! i =
     (if cancelled (es ! i) then [IsCancelled True]
      else IsCancelled False # fst (loop_body d p (es ! i) st'))"
proof (induction es arbitrary: st i)
  case Nil
  then show ?case by simp
next
  case (Cons e es)
  show ?case
  proof (cases i)
    case 0
    then show ?thesis
      by (simp add: guard_loop_Cons loop_body_indep [of d p e st st'] del: guard_loop.simps(2))
  next
    case (Suc j)
    with Cons.prems have "\<not> cancelled e" "snd (snd (loop_body d p e st))"
      by (auto simp add: guard_loop_Cons simp del: guard_loop.simps(2) split: if_splits)
    with Cons.prems Suc Cons.IH [of j "fst (snd (loop_body d p e st))"] show ?thesis
      by (simp add: guard_loop_Cons del: guard_loop.simps(2))
  qed
qed

lemma fst_runTask:
  "fst (runTask d p uninit es) =
     [Log PRIO_DEBUG ''Worker running (%s)'' [ArgStr (devicePath d)], Rnd_seed, CreateEvent,
      Malloc (pHgGetSize p)] @
     concat (fst (guard_loop d p es (uninit\<lparr>bytesReturned := 0\<rparr>))) @
     (if snd (snd (guard_loop d p es (uninit\<lparr>bytesReturned := 0\<rparr>))) = Returned then
        [Free, CloseHandle (hEvent p), Log PRIO_INFORMATION ''No more guarding'' []]
      else [])"
  by (simp add: runTask_def Let_def split_beta)

lemma snd_runTask:
  "snd (runTask d p uninit es) = snd (snd (guard_loop d p es (uninit\<lparr>bytesReturned := 0\<rparr>)))"
  by (simp add: runTask_def Let_def split_beta)

lemma guard_loop_filter_none:
  assumes "\<And>b. \<not> P (IsCancelled b)"
    and "\<And>e st. filter P (fst (loop_body d p e st)) = []"
  shows "filter P (concat (fst (guard_loop d p es st))) = []"
  using assms
  by (induction es arbitrary: st) (simp_all add: guard_loop_Cons del: guard_loop.simps(2))

lemma guard_loop_event:
  "ev \<in> set (concat (fst (guard_loop d p es st))) \<Longrightarrow>
   (\<exists>b. ev = IsCancelled b) \<or> (\<exists>e \<in> set es. ev \<in> set (fst (loop_body d p e st')))"
proof (induction es arbitrary: st)
  case Nil
  then show ?case by simp
next
  case (Cons e es)
  show ?case
  proof (cases "cancelled e")
    case True
    with Cons.prems show ?thesis
      by (auto simp add: guard_loop_Cons simp del: guard_loop.simps(2))
  next
    case False
    show ?thesis
    proof (cases "snd (snd (loop_body d p e st))")
      case True
      with False Cons.prems
      have "ev = IsCancelled False \<or> ev \<in> set (fst (loop_body d p e st)) \<or>
            ev \<in> set (concat (fst (guard_loop d p es (fst (snd (loop_body d p e st))))))"
        by (simp add: guard_loop_Cons del: guard_loop.simps(2))
      then show ?thesis
        using Cons.IH [of "fst (snd (loop_body d p e st))"] loop_body_indep [of d p e st st']
        by auto
    next
      case nc: False
      with False Cons.prems
      have "ev = IsCancelled False \<or> ev \<in> set (fst (loop_body d p e st))"
        by (simp add: guard_loop_Cons del: guard_loop.simps(2))
      then show ?thesis
        using loop_body_indep [of d p e st st'] by auto
    qed
  qed
qed

lemma guard_loop_idle:
  "\<forall>e \<in> set es. \<not> cancelled e \<and> get_error e = Some ERROR_NO_MORE_ITEMS \<Longrightarrow>
   fst (guard_loop d p es st) = map (\<lambda>e. IsCancelled False # fst (loop_body d p e st')) es
   \<and> snd (snd (guard_loop d p es st)) = Running"
proof (induction es arbitrary: st)
  case Nil
  then show ?case by simp
next
  case (Cons e es)
  then show ?case
    using loop_body_indep [of d p e st st']
    by (simp add: guard_loop_Cons loop_body_continue del: guard_loop.simps(2))
qed


lemma decide_Vigil:
  "filter is_Vigil (fst (decide p e st)) =
     [ProcessVigil (HardwareIds (pHgGet st)) (convert p (c_str (DeviceId (pHgGet st))))
        (convert p (c_str (InstanceId (pHgGet st)))) (ProcessId (pHgGet st))]"
  by (simp add: decide_def Let_def split_beta)

lemma loop_body_Vigil:
  "filter is_Vigil (fst (loop_body d p e st)) =
     (if get_error e = None then
        [ProcessVigil (HardwareIds (polled p e)) (convert p (c_str (DeviceId (polled p e))))
           (convert p (c_str (InstanceId (polled p e)))) (ProcessId (polled p e))]
      else [])"
  by (simp add: loop_body_def Let_def split_beta body_simps decide_Vigil
        split: option.splits)

lemma pHgGetSize_unat:
  "sizeof_GET p + bufferSize p < 2 ^ 32 \<Longrightarrow> unat (pHgGetSize p) = sizeof_GET p + bufferSize p"
  unfolding pHgGetSize_def by (subst unat_of_nat) simp

lemma guard_loop_break:
  assumes "snd (snd (guard_loop d p pre st)) = Running"
    and "\<not> cancelled e" and "\<not> snd (snd (loop_body d p e st'))"
  shows "fst (guard_loop d p (pre @ e # rest) st) =
           fst (guard_loop d p pre st) @ [IsCancelled False # fst (loop_body d p e st')]"
    and "snd (snd (guard_loop d p (pre @ e # rest) st)) = Returned"
  using assms loop_body_indep [of d p e "fst (snd (guard_loop d p pre st))" st']
  by (simp_all add: guard_loop_append_Running guard_loop_Cons del: guard_loop.simps(2))

lemma guard_loop_cancel:
  assumes "snd (snd (guard_loop d p pre st)) = Running" and "cancelled e"
  shows "fst (guard_loop d p (pre @ e # rest) st) =
           fst (guard_loop d p pre st) @ [[IsCancelled True]]"
    and "snd (snd (guard_loop d p (pre @ e # rest) st)) = Returned"
  using assms
  by (simp_all add: guard_loop_append_Running guard_loop_Cons del: guard_loop.simps(2))


lemma runTask_release:
  "filter is_release (fst (runTask d p uninit es)) =
     (if snd (runTask d p uninit es) = Returned then [Free, CloseHandle (hEvent p)] else [])"
  by (simp add: fst_runTask snd_runTask guard_loop_filter_none loop_body_no_release)

lemma guard_loop_Returned_iff:
  "snd (snd (guard_loop d p es st)) = Returned \<longleftrightarrow>
     (\<exists>pre e rest. es = pre @ e # rest \<and> snd (snd (guard_loop d p pre st)) = Running \<and>
        (cancelled e \<or> \<not> snd (snd (loop_body d p e st))))"
proof
  assume "snd (snd (guard_loop d p es st)) = Returned"
  then show "\<exists>pre e rest. es = pre @ e # rest \<and> snd (snd (guard_loop d p pre st)) = Running \<and>
        (cancelled e \<or> \<not> snd (snd (loop_body d p e st)))"
  proof (induction es arbitrary: st)
    case Nil
    then show ?case by simp
  next
    case (Cons a es)
    show ?case
    proof (cases "cancelled a \<or> \<not> snd (snd (loop_body d p a st))")
      case True
      have "a # es = [] @ a # es \<and> snd (snd (guard_loop d p [] st)) = Running"
        by simp
      with True show ?thesis by blast
    next
      case False
      with Cons.prems
      have "snd (snd (guard_loop d p es (fst (snd (loop_body d p a st))))) = Returned"
        by (simp add: guard_loop_Cons del: guard_loop.simps(2))
      then have "snd (snd (guard_loop d p es st)) = Returned"
        by (simp add: guard_loop_out_indep [of d p es st "fst (snd (loop_body d p a st))"])
      from Cons.IH [OF this] obtain pre e rest where
        es: "es = pre @ e # rest" and r: "snd (snd (guard_loop d p pre st)) = Running"
        and x: "cancelled e \<or> \<not> snd (snd (loop_body d p e st))"
        by blast
      have "snd (snd (guard_loop d p (a # pre) st)) = Running"
        using False r
        by (simp add: guard_loop_Cons
              guard_loop_out_indep [of d p pre "fst (snd (loop_body d p a st))" st]
              del: guard_loop.simps(2))
      moreover have "a # es = (a # pre) @ e # rest"
        using es by simp
      ultimately show ?thesis
        using x by blast
    qed
  qed
next
  assume "\<exists>pre e rest. es = pre @ e # rest \<and> snd (snd (guard_loop d p pre st)) = Running \<and>
        (cancelled e \<or> \<not> snd (snd (loop_body d p e st)))"
  then obtain pre e rest where
    es: "es = pre @ e # rest" and r: "snd (snd (guard_loop d p pre st)) = Running"
    and x: "cancelled e \<or> \<not> snd (snd (loop_body d p e st))"
    by blast
  show "snd (snd (guard_loop d p es st)) = Returned"
  proof (cases "cancelled e")
    case True
    then show ?thesis
      using guard_loop_cancel(2) [OF r] es by simp
  next
    case False
    with x have "\<not> snd (snd (loop_body d p e st))" by simp
    from guard_loop_break(2) [OF r False this] es show ?thesis by simp
  qed
qed

lemma loop_body_break_iff:
  "\<not> snd (snd (loop_body d p e st)) \<longleftrightarrow>
     (\<exists>code. get_error e = Some code \<and> code \<noteq> ERROR_NO_MORE_ITEMS) \<or>
     (get_error e = None \<and> (\<exists>code. set_error e = Some code))"
  by (cases "get_error e"; cases "set_error e") (simp_all add: loop_body_continue)

lemma replicate_numeral: "replicate (numeral k) x = x # replicate (pred_numeral k) x"
  by (simp add: numeral_eq_Suc)

section \<open>The claims\<close>

subsection \<open>Opening the device\<close>

text \<open>
  C5. When \<^verbatim>\<open>CreateFileA\<close> fails, the constructor throws: with the message that asks to
  check the path when the system error is \<^verbatim>\<open>ERROR_FILE_NOT_FOUND\<close>, with the message
  that the device may already be guarded when it is \<^verbatim>\<open>ERROR_ACCESS_DENIED\<close>, and with
  the "unknown error" message for every other code. In all three cases
  \<^verbatim>\<open>CreateFileA\<close> has been called once (no retry) and no object results. The three
  kinds of the specification are the three messages of the one exception type the source
  throws.
\<close>

theorem constructor_open_failure:
  "(err = ERROR_FILE_NOT_FOUND \<longrightarrow>
      snd (constructor path INVALID_HANDLE_VALUE err) =
        Inl (runtime_error
          ''Couldn't open the desired device, make sure the provided path is correct.''))
   \<and> (err = ERROR_ACCESS_DENIED \<longrightarrow>
      snd (constructor path INVALID_HANDLE_VALUE err) =
        Inl (runtime_error
          ''Couldn't access device, please make sure the device isn't already guarded.''))
   \<and> (err \<noteq> ERROR_FILE_NOT_FOUND \<and> err \<noteq> ERROR_ACCESS_DENIED \<longrightarrow>
      snd (constructor path INVALID_HANDLE_VALUE err) =
        Inl (runtime_error ''Couldn't access device, unknown error.''))
   \<and> fst (constructor path INVALID_HANDLE_VALUE err) =
        [Log PRIO_DEBUG ''Trying to open device %s'' [ArgStr path], CreateFileA path]
   \<and> (\<forall>dev. snd (constructor path INVALID_HANDLE_VALUE err) \<noteq> Inr dev)"
  by (simp add: constructor_def Let_def ERROR_FILE_NOT_FOUND_def ERROR_ACCESS_DENIED_def)

theorem constructor_open_failure_witness:
  "snd (constructor ''HID#VID_1234'' INVALID_HANDLE_VALUE 2) =
     Inl (runtime_error
       ''Couldn't open the desired device, make sure the provided path is correct.'')
   \<and> snd (constructor ''HID#VID_1234'' INVALID_HANDLE_VALUE 5) =
     Inl (runtime_error
       ''Couldn't access device, please make sure the device isn't already guarded.'')
   \<and> snd (constructor ''HID#VID_1234'' INVALID_HANDLE_VALUE 31) =
     Inl (runtime_error ''Couldn't access device, unknown error.'')
   \<and> fst (constructor ''HID#VID_1234'' INVALID_HANDLE_VALUE 31) =
     [Log PRIO_DEBUG ''Trying to open device %s'' [ArgStr ''HID#VID_1234''],
      CreateFileA ''HID#VID_1234'']"
  using constructor_open_failure [where err = 2 and path = "''HID#VID_1234''"]
    constructor_open_failure [where err = 5 and path = "''HID#VID_1234''"]
    constructor_open_failure [where err = 31 and path = "''HID#VID_1234''"]
  by (simp add: ERROR_FILE_NOT_FOUND_def ERROR_ACCESS_DENIED_def)

subsection \<open>From the poll to the submission\<close>

text \<open>
  Where the decision reaches the driver as stored: when \<^verbatim>\<open>processVigil\<close> stores the
  allowed flag and then the sticky flag, or stores them in the other order into flags as
  wide as a \<^verbatim>\<open>BOOL\<close>, the exchanges of a cycle whose poll succeeds are the poll, the
  call of \<^verbatim>\<open>processVigil\<close> on the fields of the polled buffer, and one submission
  with the request id of that buffer and the two flags as stored.
\<close>

lemma round_trip_when_stores_fit:
  assumes "get_error e = None"
    and "decision p e = [Store_IsAllowed a, Store_IsSticky s] \<or>
         (\<not> narrow_flags p \<and> decision p e = [Store_IsSticky s, Store_IsAllowed a])"
  shows "filter (\<lambda>ev. is_GET ev \<or> is_Vigil ev \<or> is_SET ev) (fst (loop_body d p e st)) =
     [DeviceIoControl_GET (deviceHandle d) (request_buffer p (rnd_next e))
        (pHgGetSize p) (pHgGetSize p),
      ProcessVigil (HardwareIds (polled p e)) (convert p (c_str (DeviceId (polled p e))))
        (convert p (c_str (InstanceId (polled p e)))) (ProcessId (polled p e)),
      DeviceIoControl_SET (deviceHandle d)
        \<lparr>HIDGUARDIAN_SET_CREATE_REQUEST.RequestId =
           HIDGUARDIAN_GET_CREATE_REQUEST.RequestId (polled p e),
         IsAllowed = a, IsSticky = s\<rparr>
        (sizeof_SET p)]"
  using assms by (auto simp add: loop_body_interactions)


text \<open>
  C10. The request id submitted is the one read from the buffer after the poll has
  completed (line 154), not the value of \<^verbatim>\<open>_rnd.next()\<close> stamped before it. When the
  driver has changed the field, the submission carries the driver's value and not the
  stamped one; when the driver has left the field as it was, the submission carries the
  stamped value. The stamped value reaches the submission through the buffer only: two
  values to which the driver answers with the same buffer give the same submission.
\<close>

theorem submitted_token_read_back:
  assumes "get_error e = None"
  shows "(\<exists>s. filter is_SET (fst (loop_body d p e st)) =
            [DeviceIoControl_SET (deviceHandle d) s (sizeof_SET p)]
         \<and> HIDGUARDIAN_SET_CREATE_REQUEST.RequestId s =
            HIDGUARDIAN_GET_CREATE_REQUEST.RequestId (polled p e)
         \<and> (HIDGUARDIAN_GET_CREATE_REQUEST.RequestId (polled p e) \<noteq> rnd_next e \<longrightarrow>
            HIDGUARDIAN_SET_CREATE_REQUEST.RequestId s \<noteq> rnd_next e)
         \<and> (HIDGUARDIAN_GET_CREATE_REQUEST.RequestId (polled p e) =
              HIDGUARDIAN_GET_CREATE_REQUEST.RequestId (request_buffer p (rnd_next e)) \<longrightarrow>
            HIDGUARDIAN_SET_CREATE_REQUEST.RequestId s = rnd_next e))
       \<and> (polled p (e\<lparr>rnd_next := r\<rparr>) = polled p e \<longrightarrow>
            filter is_SET (fst (loop_body d p (e\<lparr>rnd_next := r\<rparr>) st)) =
            filter is_SET (fst (loop_body d p e st)))"
  using assms by (simp add: loop_body_SET RequestId_stores)

theorem submitted_token_read_back_witness:
  "(\<exists>s. filter is_SET (fst (loop_body d0 p0 e_request garbage)) = [DeviceIoControl_SET 420 s 8]
      \<and> HIDGUARDIAN_SET_CREATE_REQUEST.RequestId s = 42 \<and> rnd_next e_request = 11)
   \<and> (\<exists>s. filter is_SET (fst (loop_body d0 p0 e_echo garbage)) = [DeviceIoControl_SET 420 s 8]
      \<and> HIDGUARDIAN_SET_CREATE_REQUEST.RequestId s = 11 \<and> rnd_next e_echo = 11)
   \<and> filter is_SET (fst (loop_body d0 p0 (e_request\<lparr>rnd_next := 12\<rparr>) garbage)) =
     filter is_SET (fst (loop_body d0 p0 e_request garbage))"
proof -
  have h1: "get_error e_request = None"
    by (simp add: example_defs)
  have h2: "get_error e_echo = None"
    by (simp add: example_defs e_echo_def)
  have h3: "polled p0 (e_request\<lparr>rnd_next := 12\<rparr>) = polled p0 e_request"
    by (simp add: example_defs)
  show ?thesis
    using submitted_token_read_back [OF h1, of d0 p0 garbage 12]
      submitted_token_read_back [OF h2, of d0 p0 garbage 12] h3
    by (auto simp add: example_defs e_echo_def)
qed

subsection \<open>Nothing is carried from one cycle to the next\<close>

text \<open>
  C7. Lines 92-98 run before anything else in the iteration and leave \<^verbatim>\<open>hgSet\<close>
  all zero. What an iteration does and the state it leaves do not depend on the state it
  starts from, that is, on what earlier iterations left in \<^verbatim>\<open>hgSet\<close> and in the
  buffer. An iteration submits once when its poll succeeds and not at all otherwise; the
  structure submitted is the zeroed one with the request id of the buffer the poll
  returned and the stores of \<^verbatim>\<open>processVigil\<close>, so that a flag
  \<^verbatim>\<open>processVigil\<close> does not store is submitted as \<open>False\<close>. Two runs that are
  both still in the loop after different earlier cycles behave the same from then on,
  given the same answers.
\<close>

theorem submit_structure_fresh_each_cycle:
  "hgSet (snd (prepare p e st)) =
     \<lparr>HIDGUARDIAN_SET_CREATE_REQUEST.RequestId = 0, IsAllowed = False, IsSticky = False\<rparr>
   \<and> loop_body d p e st = loop_body d p e st'
   \<and> filter is_SET (fst (loop_body d p e st)) =
       (if get_error e = None then
          [DeviceIoControl_SET (deviceHandle d) (submitted p e) (sizeof_SET p)]
        else [])
   \<and> HIDGUARDIAN_SET_CREATE_REQUEST.RequestId (submitted p e) =
       HIDGUARDIAN_GET_CREATE_REQUEST.RequestId (polled p e)
   \<and> ((\<forall>b. Store_IsAllowed b \<notin> set (decision p e)) \<longrightarrow> \<not> IsAllowed (submitted p e))
   \<and> ((\<forall>b. Store_IsSticky b \<notin> set (decision p e)) \<longrightarrow> \<not> IsSticky (submitted p e))
   \<and> (snd (snd (guard_loop d p pre st)) = Running \<and>
      snd (snd (guard_loop d p pre' st')) = Running \<longrightarrow>
      drop (length pre) (fst (guard_loop d p (pre @ es) st)) =
      drop (length pre') (fst (guard_loop d p (pre' @ es) st')))"
proof -
  have c: "drop (length pre) (fst (guard_loop d p (pre @ es) st)) =
        drop (length pre') (fst (guard_loop d p (pre' @ es) st'))"
    if r: "snd (snd (guard_loop d p pre st)) = Running"
      and r': "snd (snd (guard_loop d p pre' st')) = Running"
  proof -
    have "drop (length pre) (fst (guard_loop d p (pre @ es) st)) =
          fst (guard_loop d p es (fst (snd (guard_loop d p pre st))))"
      using r by (simp add: guard_loop_append_Running guard_loop_Running_length)
    moreover have "drop (length pre') (fst (guard_loop d p (pre' @ es) st')) =
          fst (guard_loop d p es (fst (snd (guard_loop d p pre' st'))))"
      using r' by (simp add: guard_loop_append_Running guard_loop_Running_length)
    ultimately show ?thesis
      by (simp add: guard_loop_fst_indep [of d p es "fst (snd (guard_loop d p pre st))"
            "fst (snd (guard_loop d p pre' st'))"])
  qed
  show ?thesis
  proof (intro conjI impI)
    show "hgSet (snd (prepare p e st)) =
      \<lparr>HIDGUARDIAN_SET_CREATE_REQUEST.RequestId = 0, IsAllowed = False, IsSticky = False\<rparr>"
      by (simp add: snd_prepare ZeroMemory_SET_def)
    show "loop_body d p e st = loop_body d p e st'"
      by (rule loop_body_indep)
    show "filter is_SET (fst (loop_body d p e st)) =
       (if get_error e = None then
          [DeviceIoControl_SET (deviceHandle d) (submitted p e) (sizeof_SET p)]
        else [])"
      by (rule loop_body_SET)
    show "HIDGUARDIAN_SET_CREATE_REQUEST.RequestId (submitted p e) =
       HIDGUARDIAN_GET_CREATE_REQUEST.RequestId (polled p e)"
      by (simp add: RequestId_stores)
    show "\<not> IsAllowed (submitted p e)" if "\<forall>b. Store_IsAllowed b \<notin> set (decision p e)"
      using that by (simp add: IsAllowed_unstored)
    show "\<not> IsSticky (submitted p e)" if "\<forall>b. Store_IsSticky b \<notin> set (decision p e)"
      using that by (simp add: IsSticky_unstored)
    show "drop (length pre) (fst (guard_loop d p (pre @ es) st)) =
        drop (length pre') (fst (guard_loop d p (pre' @ es) st'))"
      if "snd (snd (guard_loop d p pre st)) = Running \<and>
          snd (snd (guard_loop d p pre' st')) = Running"
      using that c by blast
  qed
qed

theorem submit_structure_fresh_each_cycle_witness:
  "filter is_SET (fst (loop_body d0 p0 e_unset garbage)) =
     [DeviceIoControl_SET 420
        \<lparr>HIDGUARDIAN_SET_CREATE_REQUEST.RequestId = 42, IsAllowed = False, IsSticky = False\<rparr> 8]
   \<and> IsAllowed (hgSet garbage) \<and> IsSticky (hgSet garbage)
   \<and> \<not> IsAllowed (submitted p0 e_unset) \<and> \<not> IsSticky (submitted p0 e_unset)
   \<and> drop (length [e_idle]) (fst (guard_loop d0 p0 ([e_idle] @ [e_unset]) garbage)) =
     drop (length [e_request, e_idle]) (fst (guard_loop d0 p0 ([e_request, e_idle] @ [e_unset])
        (garbage\<lparr>bytesReturned := 0\<rparr>)))"
proof -
  have h1: "snd (snd (guard_loop d0 p0 [e_idle] garbage)) = Running"
    by (simp add: guard_loop_Cons loop_body_continue example_defs del: guard_loop.simps(2))
  have h2: "snd (snd (guard_loop d0 p0 [e_request, e_idle] (garbage\<lparr>bytesReturned := 0\<rparr>))) =
      Running"
    by (simp add: guard_loop_Cons loop_body_continue example_defs del: guard_loop.simps(2))
  have h3: "get_error e_unset = None"
    by (simp add: example_defs)
  have h4: "decision p0 e_unset = []"
    by (simp add: example_defs)
  have u: "\<forall>b. Store_IsAllowed b \<notin> set (decision p0 e_unset)"
    "\<forall>b. Store_IsSticky b \<notin> set (decision p0 e_unset)"
    by (simp_all add: h4)
  have h5: "HIDGUARDIAN_GET_CREATE_REQUEST.RequestId (polled p0 e_unset) = 42"
    by (simp add: example_defs)
  have h6: "deviceHandle d0 = 420" "sizeof_SET p0 = 8"
    by (simp_all add: example_defs)
  have h7: "IsAllowed (hgSet garbage) \<and> IsSticky (hgSet garbage)"
    by (simp add: example_defs)
  note T = submit_structure_fresh_each_cycle [of p0 e_unset garbage d0
        "garbage\<lparr>bytesReturned := 0\<rparr>" "[e_idle]" "[e_request, e_idle]" "[e_unset]"]
  note c3 = T [THEN conjunct2, THEN conjunct2, THEN conjunct1]
  note c5 = T [THEN conjunct2, THEN conjunct2, THEN conjunct2, THEN conjunct2, THEN conjunct1,
    THEN mp, OF u(1)]
  note c6 = T [THEN conjunct2, THEN conjunct2, THEN conjunct2, THEN conjunct2, THEN conjunct2,
    THEN conjunct1, THEN mp, OF u(2)]
  note c7 = T [THEN conjunct2, THEN conjunct2, THEN conjunct2, THEN conjunct2, THEN conjunct2,
    THEN conjunct2]
  have s: "filter is_SET (fst (loop_body d0 p0 e_unset garbage)) =
     [DeviceIoControl_SET 420
        \<lparr>HIDGUARDIAN_SET_CREATE_REQUEST.RequestId = 42, IsAllowed = False, IsSticky = False\<rparr> 8]"
    using c3 by (simp add: h3 h4 h5 h6)
  have dr: "drop (length [e_idle]) (fst (guard_loop d0 p0 ([e_idle] @ [e_unset]) garbage)) =
     drop (length [e_request, e_idle]) (fst (guard_loop d0 p0 ([e_request, e_idle] @ [e_unset])
        (garbage\<lparr>bytesReturned := 0\<rparr>)))"
    using c7 h1 h2 by blast
  from s h7 c5 c6 dr show ?thesis
    by (intro conjI) simp_all
qed

subsection \<open>What is logged on a failure\<close>

text \<open>
  C9. The code at the failing input: when the submission fails with the system error 31
  for the request 42, the one message logged at error priority is
  \<^verbatim>\<open>Permission request %lu failed\<close> with the request id as its only argument (line
  202); the error code is not in it. When the poll fails with the same code, the message
  of line 136 has the request id and the code.
\<close>

theorem fatal_submit_log_lacks_code:
  "get_error e_fatal_submit = None \<and> set_error e_fatal_submit = Some 31
   \<and> filter (is_Log_at PRIO_ERROR) (fst (loop_body d0 p0 e_fatal_submit garbage)) =
       [Log PRIO_ERROR ''Permission request %lu failed'' [ArgUL 42]]
   \<and> get_error e_fatal_poll = Some 31
   \<and> filter (is_Log_at PRIO_ERROR) (fst (loop_body d0 p0 e_fatal_poll garbage)) =
       [Log PRIO_ERROR ''Request (ID: %lu) failed: %lu'' [ArgUL 7, ArgUL 31]]"
  by (simp add: loop_body_error_log example_defs const_defs)

subsection \<open>The scratch buffer\<close>

text \<open>
  C2. When the header size plus the configured capacity fits the \<^verbatim>\<open>ULONG\<close> of line
  84: the buffer is allocated once, with that many bytes. Whatever an iteration starts
  from, after lines 92-98 the buffer is zero in every field but \<^verbatim>\<open>Size\<close>, which
  holds the total, and \<^verbatim>\<open>RequestId\<close>, which holds the fresh id; the payload is the
  capacity in zero bytes. Every poll of a run hands the driver that buffer, with the total
  as the size of both the input and the output, and every call of \<^verbatim>\<open>processVigil\<close>
  is on what the driver wrote into such a buffer.
\<close>

theorem scratch_buffer_sized_and_zeroed:
  assumes "sizeof_GET p + bufferSize p < 2 ^ 32"
  shows "filter is_Malloc (fst (runTask d p uninit es)) = [Malloc (pHgGetSize p)]
   \<and> unat (pHgGetSize p) = sizeof_GET p + bufferSize p
   \<and> pHgGet (snd (prepare p e st)) =
        \<lparr>Size = pHgGetSize p, HIDGUARDIAN_GET_CREATE_REQUEST.RequestId = rnd_next e,
         ProcessId = 0, DeviceId = replicate (deviceId_len p) 0,
         InstanceId = replicate (instanceId_len p) 0,
         HardwareIds = replicate (bufferSize p) 0\<rparr>
   \<and> (\<forall>ev \<in> set (fst (runTask d p uninit es)). is_GET ev \<longrightarrow>
        (\<exists>e \<in> set es. ev =
           DeviceIoControl_GET (deviceHandle d)
             \<lparr>Size = pHgGetSize p, HIDGUARDIAN_GET_CREATE_REQUEST.RequestId = rnd_next e,
              ProcessId = 0, DeviceId = replicate (deviceId_len p) 0,
              InstanceId = replicate (instanceId_len p) 0,
              HardwareIds = replicate (bufferSize p) 0\<rparr>
             (pHgGetSize p) (pHgGetSize p)))
   \<and> (\<forall>ev \<in> set (fst (runTask d p uninit es)). is_Vigil ev \<longrightarrow>
        (\<exists>e \<in> set es. ev =
           ProcessVigil (HardwareIds (polled p e)) (convert p (c_str (DeviceId (polled p e))))
             (convert p (c_str (InstanceId (polled p e)))) (ProcessId (polled p e))))"
proof (intro conjI ballI impI)
  have payload: "unat (pHgGetSize p) - sizeof_GET p = bufferSize p"
    using pHgGetSize_unat [OF assms] by simp
  show "filter is_Malloc (fst (runTask d p uninit es)) = [Malloc (pHgGetSize p)]"
    by (simp add: fst_runTask guard_loop_filter_none loop_body_no_Malloc)
  show "unat (pHgGetSize p) = sizeof_GET p + bufferSize p"
    using assms by (rule pHgGetSize_unat)
  show "pHgGet (snd (prepare p e st)) =
        \<lparr>Size = pHgGetSize p, HIDGUARDIAN_GET_CREATE_REQUEST.RequestId = rnd_next e,
         ProcessId = 0, DeviceId = replicate (deviceId_len p) 0,
         InstanceId = replicate (instanceId_len p) 0,
         HardwareIds = replicate (bufferSize p) 0\<rparr>"
    by (simp add: snd_prepare ZeroMemory_GET_def payload)
  {
    fix ev
    assume ev: "ev \<in> set (fst (runTask d p uninit es))" and g: "is_GET ev"
    from ev g have "ev \<in> set (concat (fst (guard_loop d p es (uninit\<lparr>bytesReturned := 0\<rparr>))))"
      by (auto simp add: fst_runTask split: if_splits)
    from guard_loop_event [OF this, of uninit] g
    obtain e where e: "e \<in> set es" "ev \<in> set (fst (loop_body d p e uninit))"
      by auto
    from e(2) g have "ev \<in> set (filter is_GET (fst (loop_body d p e uninit)))"
      by simp
    then have "ev = DeviceIoControl_GET (deviceHandle d) (request_buffer p (rnd_next e))
        (pHgGetSize p) (pHgGetSize p)"
      by (simp add: loop_body_GET)
    with e(1) show "\<exists>e \<in> set es. ev =
             DeviceIoControl_GET (deviceHandle d)
               \<lparr>Size = pHgGetSize p, HIDGUARDIAN_GET_CREATE_REQUEST.RequestId = rnd_next e,
                ProcessId = 0, DeviceId = replicate (deviceId_len p) 0,
                InstanceId = replicate (instanceId_len p) 0,
                HardwareIds = replicate (bufferSize p) 0\<rparr>
               (pHgGetSize p) (pHgGetSize p)"
      by (auto simp add: ZeroMemory_GET_def payload)
  }
  {
    fix ev
    assume ev: "ev \<in> set (fst (runTask d p uninit es))" and g: "is_Vigil ev"
    from ev g have "ev \<in> set (concat (fst (guard_loop d p es (uninit\<lparr>bytesReturned := 0\<rparr>))))"
      by (auto simp add: fst_runTask split: if_splits)
    from guard_loop_event [OF this, of uninit] g
    obtain e where e: "e \<in> set es" "ev \<in> set (fst (loop_body d p e uninit))"
      by auto
    from e(2) g have m: "ev \<in> set (filter is_Vigil (fst (loop_body d p e uninit)))"
      by simp
    have "ev = ProcessVigil (HardwareIds (polled p e)) (convert p (c_str (DeviceId (polled p e))))
               (convert p (c_str (InstanceId (polled p e)))) (ProcessId (polled p e))"
      using m by (simp add: loop_body_Vigil split: if_splits)
    with e(1) show "\<exists>e \<in> set es. ev =
             ProcessVigil (HardwareIds (polled p e)) (convert p (c_str (DeviceId (polled p e))))
               (convert p (c_str (InstanceId (polled p e)))) (ProcessId (polled p e))"
      by auto
  }
qed

theorem scratch_buffer_sized_and_zeroed_witness:
  "filter is_Malloc (fst (runTask d0 p0 garbage [e_idle, e_request])) = [Malloc 28]
   \<and> unat (pHgGetSize p0) = 24 + 4
   \<and> pHgGet (snd (prepare p0 e_request garbage)) =
        \<lparr>Size = 28, HIDGUARDIAN_GET_CREATE_REQUEST.RequestId = 11, ProcessId = 0,
         DeviceId = [0, 0], InstanceId = [0, 0], HardwareIds = [0, 0, 0, 0]\<rparr>
   \<and> DeviceIoControl_GET 420 (request_buffer p0 11) 28 28
        \<in> set (fst (runTask d0 p0 garbage [e_idle, e_request]))
   \<and> (\<exists>e. (e = e_idle \<or> e = e_request) \<and> DeviceIoControl_GET 420 (request_buffer p0 11) 28 28 =
        DeviceIoControl_GET 420
          \<lparr>Size = 28, HIDGUARDIAN_GET_CREATE_REQUEST.RequestId = rnd_next e, ProcessId = 0,
           DeviceId = [0, 0], InstanceId = [0, 0], HardwareIds = [0, 0, 0, 0]\<rparr> 28 28)
   \<and> ProcessVigil [72, 0, 0, 0] ''#'' ''##'' 4242
        \<in> set (fst (runTask d0 p0 garbage [e_idle, e_request]))
   \<and> (\<exists>e. (e = e_idle \<or> e = e_request) \<and> ProcessVigil [72, 0, 0, 0] ''#'' ''##'' 4242 =
        ProcessVigil (HardwareIds (polled p0 e)) (convert p0 (c_str (DeviceId (polled p0 e))))
          (convert p0 (c_str (InstanceId (polled p0 e)))) (ProcessId (polled p0 e)))"
proof -
  have sz: "pHgGetSize p0 = 28" "sizeof_GET p0 + bufferSize p0 < 2 ^ 32"
    "deviceHandle d0 = 420" "sizeof_GET p0 = 24" "bufferSize p0 = 4"
    "deviceId_len p0 = 2" "instanceId_len p0 = 2" "rnd_next e_request = 11"
    by (simp_all add: pHgGetSize_def example_defs)
  have run: "snd (snd (guard_loop d0 p0 [e_idle, e_request] (garbage\<lparr>bytesReturned := 0\<rparr>))) =
      Running"
    by (simp add: guard_loop_Cons loop_body_continue example_defs del: guard_loop.simps(2))
  have segs: "fst (guard_loop d0 p0 [e_idle, e_request] (garbage\<lparr>bytesReturned := 0\<rparr>)) =
      [IsCancelled False # fst (loop_body d0 p0 e_idle garbage),
       IsCancelled False # fst (loop_body d0 p0 e_request garbage)]"
    using loop_body_indep [of d0 p0 e_idle "garbage\<lparr>bytesReturned := 0\<rparr>" garbage]
      loop_body_indep [of d0 p0 e_request
        "fst (snd (loop_body d0 p0 e_idle garbage))" garbage]
    by (simp add: guard_loop_Cons loop_body_continue example_defs del: guard_loop.simps(2))
  have g: "DeviceIoControl_GET 420 (request_buffer p0 11) 28 28
      \<in> set (filter is_GET (fst (loop_body d0 p0 e_request garbage)))"
    by (simp add: loop_body_GET sz)
  have v: "ProcessVigil [72, 0, 0, 0] ''#'' ''##'' 4242
      \<in> set (filter is_Vigil (fst (loop_body d0 p0 e_request garbage)))"
    by (simp add: loop_body_Vigil example_defs)
  have gm: "DeviceIoControl_GET 420 (request_buffer p0 11) 28 28
      \<in> set (fst (runTask d0 p0 garbage [e_idle, e_request]))"
    using g by (simp add: fst_runTask segs run del: guard_loop.simps(2))
  have vm: "ProcessVigil [72, 0, 0, 0] ''#'' ''##'' 4242
      \<in> set (fst (runTask d0 p0 garbage [e_idle, e_request]))"
    using v by (simp add: fst_runTask segs run del: guard_loop.simps(2))
  note T = scratch_buffer_sized_and_zeroed [OF sz(2), of d0 garbage "[e_idle, e_request]"
    e_request garbage]
  note c1 = T [THEN conjunct1]
  note c2 = T [THEN conjunct2, THEN conjunct1]
  note c3 = T [THEN conjunct2, THEN conjunct2, THEN conjunct1]
  note c4 = T [THEN conjunct2, THEN conjunct2, THEN conjunct2, THEN conjunct1, rule_format,
    OF gm]
  note c5 = T [THEN conjunct2, THEN conjunct2, THEN conjunct2, THEN conjunct2, rule_format,
    OF vm]
  have c4': "\<exists>e. (e = e_idle \<or> e = e_request) \<and>
      DeviceIoControl_GET 420 (request_buffer p0 11) 28 28 =
        DeviceIoControl_GET 420
          \<lparr>Size = 28, HIDGUARDIAN_GET_CREATE_REQUEST.RequestId = rnd_next e, ProcessId = 0,
           DeviceId = [0, 0], InstanceId = [0, 0], HardwareIds = [0, 0, 0, 0]\<rparr> 28 28"
    using c4 by (auto simp add: sz replicate_numeral)
  have c5': "\<exists>e. (e = e_idle \<or> e = e_request) \<and>
      ProcessVigil [72, 0, 0, 0] ''#'' ''##'' 4242 =
        ProcessVigil (HardwareIds (polled p0 e)) (convert p0 (c_str (DeviceId (polled p0 e))))
          (convert p0 (c_str (InstanceId (polled p0 e)))) (ProcessId (polled p0 e))"
    using c5 by auto
  show ?thesis
    using c1 c2 c3 c4' c5' gm vm
    by (simp add: sz replicate_numeral)
qed

text \<open>
  Without that condition the size is not the sum. With a header of 24 bytes and a capacity
  of 4294967295 the sum is 4294967319; line 84 keeps its low 32 bits, and the buffer
  allocated has 23 bytes.
\<close>

theorem scratch_buffer_size_wraps:
  "sizeof_GET p_wrap + bufferSize p_wrap = 4294967319
   \<and> filter is_Malloc (fst (runTask d0 p_wrap garbage [e_idle])) = [Malloc 23]
   \<and> unat (pHgGetSize p_wrap) \<noteq> sizeof_GET p_wrap + bufferSize p_wrap"
proof -
  have s: "pHgGetSize p_wrap = 23"
    by (simp add: pHgGetSize_def p_wrap_def p0_def)
  have "filter is_Malloc (fst (runTask d0 p_wrap garbage [e_idle])) = [Malloc (pHgGetSize p_wrap)]"
    by (simp add: fst_runTask guard_loop_filter_none loop_body_no_Malloc
          del: guard_loop.simps(2))
  then show ?thesis
    by (simp add: s) (simp add: p_wrap_def p0_def)
qed

subsection \<open>How the loop ends and what it releases\<close>



text \<open>
  C4. Over any number of consecutive cycles in which the task is not cancelled and the
  driver reports \<^verbatim>\<open>ERROR_NO_MORE_ITEMS\<close>, started from any state: each cycle is the
  check of the flag, the fresh id, the poll, its wait and \<^verbatim>\<open>sleep(200)\<close>; the loop is
  still running afterwards; \<^verbatim>\<open>processVigil\<close> is not called and nothing is submitted;
  and the polls and the sleeps alternate, one sleep of 200 after each poll.
\<close>

theorem idle_cycles_poll_and_sleep:
  assumes "\<forall>e \<in> set es. \<not> cancelled e \<and> get_error e = Some ERROR_NO_MORE_ITEMS"
  shows "fst (guard_loop d p es st) =
           map (\<lambda>e. [IsCancelled False, Rnd_next (rnd_next e)] @
                  (if is_debug p then
                     [Log PRIO_DEBUG ''Looking for quests (ID: %lu)'' [ArgUL (rnd_next e)]]
                   else []) @
                  [DeviceIoControl_GET (deviceHandle d) (request_buffer p (rnd_next e))
                     (pHgGetSize p) (pHgGetSize p),
                   GetOverlappedResult (deviceHandle d) (Some ERROR_NO_MORE_ITEMS),
                   Sleep 200]) es
       \<and> snd (snd (guard_loop d p es st)) = Running
       \<and> filter (\<lambda>ev. is_Vigil ev \<or> is_SET ev) (concat (fst (guard_loop d p es st))) = []
       \<and> filter (\<lambda>ev. is_GET ev \<or> is_Sleep ev) (concat (fst (guard_loop d p es st))) =
           concat (map (\<lambda>e. [DeviceIoControl_GET (deviceHandle d)
                                (request_buffer p (rnd_next e)) (pHgGetSize p) (pHgGetSize p),
                              Sleep 200]) es)"
proof -
  have segs: "fst (guard_loop d p es st) =
           map (\<lambda>e. [IsCancelled False, Rnd_next (rnd_next e)] @
                  (if is_debug p then
                     [Log PRIO_DEBUG ''Looking for quests (ID: %lu)'' [ArgUL (rnd_next e)]]
                   else []) @
                  [DeviceIoControl_GET (deviceHandle d) (request_buffer p (rnd_next e))
                     (pHgGetSize p) (pHgGetSize p),
                   GetOverlappedResult (deviceHandle d) (Some ERROR_NO_MORE_ITEMS),
                   Sleep 200]) es"
    using assms guard_loop_idle [OF assms, of d p st st]
    by (simp add: loop_body_idle cong: map_cong)
  have run: "snd (snd (guard_loop d p es st)) = Running"
    using guard_loop_idle [OF assms, of d p st st] by simp
  have none: "filter (\<lambda>ev. is_Vigil ev \<or> is_SET ev) (concat (fst (guard_loop d p es st))) = []"
    unfolding segs by (simp add: filter_concat comp_def)
  have polls: "filter (\<lambda>ev. is_GET ev \<or> is_Sleep ev) (concat (fst (guard_loop d p es st))) =
           concat (map (\<lambda>e. [DeviceIoControl_GET (deviceHandle d)
                                (request_buffer p (rnd_next e)) (pHgGetSize p) (pHgGetSize p),
                              Sleep 200]) es)"
    unfolding segs by (simp add: filter_concat comp_def)
  from segs run none polls show ?thesis
    by (intro conjI)
qed

theorem idle_cycles_poll_and_sleep_witness:
  "filter (\<lambda>ev. is_GET ev \<or> is_Sleep ev)
     (concat (fst (guard_loop d0 p0 [e_idle, e_idle, e_idle] garbage))) =
     [DeviceIoControl_GET 420 (request_buffer p0 7) 28 28, Sleep 200,
      DeviceIoControl_GET 420 (request_buffer p0 7) 28 28, Sleep 200,
      DeviceIoControl_GET 420 (request_buffer p0 7) 28 28, Sleep 200]
   \<and> filter (\<lambda>ev. is_Vigil ev \<or> is_SET ev)
       (concat (fst (guard_loop d0 p0 [e_idle, e_idle, e_idle] garbage))) = []
   \<and> snd (snd (guard_loop d0 p0 [e_idle, e_idle, e_idle] garbage)) = Running"
proof -
  have h: "\<forall>e \<in> set [e_idle, e_idle, e_idle].
      \<not> cancelled e \<and> get_error e = Some ERROR_NO_MORE_ITEMS"
    by (simp add: example_defs)
  have v: "rnd_next e_idle = 7" "deviceHandle d0 = 420" "pHgGetSize p0 = 28"
    by (simp_all add: example_defs pHgGetSize_def)
  note T = idle_cycles_poll_and_sleep [OF h, of d0 p0 garbage]
  show ?thesis
    using T [THEN conjunct2, THEN conjunct1] T [THEN conjunct2, THEN conjunct2, THEN conjunct1]
      T [THEN conjunct2, THEN conjunct2, THEN conjunct2]
    by (simp add: v del: guard_loop.simps(2))
qed

text \<open>
  C6. A run that has returned has called \<^verbatim>\<open>free\<close> once and then \<^verbatim>\<open>CloseHandle\<close>
  on the event once, and has released nothing else; a run still in the loop has released
  nothing. The runs that return are exactly those that meet, after cycles that all
  continued, a set cancellation flag, a failed poll other than the empty queue
  (device gone or any other code), or a failed submission (device gone or any other code).
  The device handle is not among what \<^verbatim>\<open>runTask\<close> releases, on any of these paths:
  it is closed, once, by the destructor of an object that the constructor has built.
\<close>

theorem resources_released_once:
  "(snd (runTask d p uninit es) = Returned \<longrightarrow>
      filter is_release (fst (runTask d p uninit es)) = [Free, CloseHandle (hEvent p)])
   \<and> (snd (runTask d p uninit es) = Running \<longrightarrow>
      filter is_release (fst (runTask d p uninit es)) = [])
   \<and> (snd (runTask d p uninit es) = Returned \<longleftrightarrow>
      (\<exists>pre e rest. es = pre @ e # rest \<and> snd (runTask d p uninit pre) = Running \<and>
         (cancelled e \<or>
          (\<exists>code. get_error e = Some code \<and> code \<noteq> ERROR_NO_MORE_ITEMS) \<or>
          (get_error e = None \<and> (\<exists>code. set_error e = Some code)))))
   \<and> (hEvent p \<noteq> deviceHandle d \<longrightarrow>
      CloseHandle (deviceHandle d) \<notin> set (fst (runTask d p uninit es)))
   \<and> (snd (constructor path h err) = Inr d \<longrightarrow>
      h \<noteq> INVALID_HANDLE_VALUE \<and> deviceHandle d = h \<and> destructor d = [CloseHandle h])"
proof (intro conjI impI)
  show "filter is_release (fst (runTask d p uninit es)) = [Free, CloseHandle (hEvent p)]"
    if "snd (runTask d p uninit es) = Returned"
    using that by (simp add: runTask_release)
  show "filter is_release (fst (runTask d p uninit es)) = []"
    if "snd (runTask d p uninit es) = Running"
    using that by (simp add: runTask_release)
  show "snd (runTask d p uninit es) = Returned \<longleftrightarrow>
      (\<exists>pre e rest. es = pre @ e # rest \<and> snd (runTask d p uninit pre) = Running \<and>
         (cancelled e \<or>
          (\<exists>code. get_error e = Some code \<and> code \<noteq> ERROR_NO_MORE_ITEMS) \<or>
          (get_error e = None \<and> (\<exists>code. set_error e = Some code))))"
    by (simp only: snd_runTask guard_loop_Returned_iff loop_body_break_iff)
  show "CloseHandle (deviceHandle d) \<notin> set (fst (runTask d p uninit es))"
    if ne: "hEvent p \<noteq> deviceHandle d"
  proof
    assume "CloseHandle (deviceHandle d) \<in> set (fst (runTask d p uninit es))"
    then have "CloseHandle (deviceHandle d) \<in> set (filter is_release (fst (runTask d p uninit es)))"
      by simp
    with ne show False
      by (simp add: runTask_release split: if_splits)
  qed
  assume c: "snd (constructor path h err) = Inr d"
  then have h: "h \<noteq> INVALID_HANDLE_VALUE"
    by (auto simp add: constructor_def Let_def split: if_splits)
  with c have d: "deviceHandle d = h"
    by (auto simp add: constructor_def Let_def)
  show "h \<noteq> INVALID_HANDLE_VALUE" by (rule h)
  show "deviceHandle d = h" by (rule d)
  show "destructor d = [CloseHandle h]"
    using h d by (simp add: destructor_def)
qed

theorem resources_released_once_witness:
  "filter is_release (fst (runTask d0 p0 garbage [e_idle, e_cancel])) = [Free, CloseHandle 500]
   \<and> filter is_release (fst (runTask d0 p0 garbage [e_gone_poll])) = [Free, CloseHandle 500]
   \<and> filter is_release (fst (runTask d0 p0 garbage [e_fatal_poll])) = [Free, CloseHandle 500]
   \<and> filter is_release (fst (runTask d0 p0 garbage [e_request, e_gone_submit])) =
       [Free, CloseHandle 500]
   \<and> filter is_release (fst (runTask d0 p0 garbage [e_request, e_fatal_submit])) =
       [Free, CloseHandle 500]
   \<and> filter is_release (fst (runTask d0 p0 garbage [e_idle, e_request])) = []
   \<and> CloseHandle 420 \<notin> set (fst (runTask d0 p0 garbage [e_request, e_fatal_submit]))
   \<and> snd (constructor ''HID#VID_1234&PID_5678'' 420 0) = Inr d0
   \<and> destructor d0 = [CloseHandle 420]"
proof -
  have r1: "snd (runTask d0 p0 garbage [e_idle, e_cancel]) = Returned"
    and r2: "snd (runTask d0 p0 garbage [e_gone_poll]) = Returned"
    and r3: "snd (runTask d0 p0 garbage [e_fatal_poll]) = Returned"
    and r4: "snd (runTask d0 p0 garbage [e_request, e_gone_submit]) = Returned"
    and r5: "snd (runTask d0 p0 garbage [e_request, e_fatal_submit]) = Returned"
    and r6: "snd (runTask d0 p0 garbage [e_idle, e_request]) = Running"
    by (simp_all add: snd_runTask guard_loop_Cons loop_body_continue example_defs const_defs
          del: guard_loop.simps(2))
  have c: "snd (constructor ''HID#VID_1234&PID_5678'' 420 0) = Inr d0"
    by (simp add: constructor_def Let_def d0_def const_defs)
  have e: "hEvent p0 = 500" "deviceHandle d0 = 420"
    by (simp_all add: example_defs)
  have ne: "hEvent p0 \<noteq> deviceHandle d0"
    by (simp add: e)
  note R = resources_released_once [THEN conjunct1, rule_format]
  note N = resources_released_once [THEN conjunct2, THEN conjunct1, rule_format]
  note H = resources_released_once [THEN conjunct2, THEN conjunct2, THEN conjunct2,
    THEN conjunct1, rule_format, OF ne]
  note D = resources_released_once [THEN conjunct2, THEN conjunct2, THEN conjunct2,
    THEN conjunct2, rule_format, OF c]
  show ?thesis
    using R [OF r1] R [OF r2] R [OF r3] R [OF r4] R [OF r5] N [OF r6]
      H [of garbage "[e_request, e_fatal_submit]"] c D
    by (simp add: e)
qed

text \<open>
  A run that ends by cancellation: it has returned, having released the buffer and the
  event, and the device handle 420 is still open.
\<close>

theorem device_handle_outlives_the_loop:
  "snd (runTask d0 p0 garbage [e_cancel]) = Returned
   \<and> filter is_release (fst (runTask d0 p0 garbage [e_cancel])) = [Free, CloseHandle 500]
   \<and> deviceHandle d0 = 420
   \<and> CloseHandle (deviceHandle d0) \<notin> set (fst (runTask d0 p0 garbage [e_cancel]))"
proof -
  have r: "snd (runTask d0 p0 garbage [e_cancel]) = Returned"
    by (simp add: snd_runTask guard_loop_Cons example_defs del: guard_loop.simps(2))
  have f: "filter is_release (fst (runTask d0 p0 garbage [e_cancel])) = [Free, CloseHandle 500]"
    using r by (simp add: runTask_release) (simp add: example_defs)
  have n: "CloseHandle (deviceHandle d0) \<notin> set (fst (runTask d0 p0 garbage [e_cancel]))"
  proof
    assume "CloseHandle (deviceHandle d0) \<in> set (fst (runTask d0 p0 garbage [e_cancel]))"
    then have "CloseHandle (deviceHandle d0)
        \<in> set (filter is_release (fst (runTask d0 p0 garbage [e_cancel])))"
      by simp
    then show False
      by (simp add: f) (simp add: example_defs)
  qed
  from r f n show ?thesis
    by (simp add: d0_def)
qed

subsection \<open>Cancellation\<close>

text \<open>
  C8. Every evaluation of the loop condition and the body that follows it start with the
  one reading of the cancellation flag they contain. When the flag is set nothing follows
  in the loop: \<^verbatim>\<open>runTask\<close> goes on with \<^verbatim>\<open>free\<close>, \<^verbatim>\<open>CloseHandle\<close> and the final
  message, and polls no more. When it is not set the body polls exactly once, and no
  reading of the flag comes after the poll, so none comes between it and the submission.
\<close>

theorem cancellation_checked_at_cycle_start:
  "(i < length (fst (guard_loop d p es st)) \<longrightarrow>
      (\<exists>t. fst (guard_loop d p es st) ! i = IsCancelled (cancelled (es ! i)) # t
          \<and> filter is_IsCancelled t = []
          \<and> (cancelled (es ! i) \<longrightarrow> t = [])
          \<and> (\<not> cancelled (es ! i) \<longrightarrow> length (filter is_GET t) = 1)))
   \<and> (snd (snd (guard_loop d p pre (uninit\<lparr>bytesReturned := 0\<rparr>))) = Running \<and> cancelled e \<longrightarrow>
        runTask d p uninit (pre @ e # rest) =
          ([Log PRIO_DEBUG ''Worker running (%s)'' [ArgStr (devicePath d)], Rnd_seed,
            CreateEvent, Malloc (pHgGetSize p)] @
           concat (fst (guard_loop d p pre (uninit\<lparr>bytesReturned := 0\<rparr>))) @
           [IsCancelled True, Free, CloseHandle (hEvent p),
            Log PRIO_INFORMATION ''No more guarding'' []],
           Returned))"
proof (intro conjI impI)
  assume i: "i < length (fst (guard_loop d p es st))"
  show "\<exists>t. fst (guard_loop d p es st) ! i = IsCancelled (cancelled (es ! i)) # t
          \<and> filter is_IsCancelled t = []
          \<and> (cancelled (es ! i) \<longrightarrow> t = [])
          \<and> (\<not> cancelled (es ! i) \<longrightarrow> length (filter is_GET t) = 1)"
  proof (cases "cancelled (es ! i)")
    case True
    with guard_loop_segment [OF i, of st] show ?thesis
      by simp
  next
    case False
    with guard_loop_segment [OF i, of st]
    have "fst (guard_loop d p es st) ! i =
        IsCancelled (cancelled (es ! i)) # fst (loop_body d p (es ! i) st)"
      by simp
    moreover have "filter is_IsCancelled (fst (loop_body d p (es ! i) st)) = []"
      by (rule loop_body_no_check)
    moreover have "length (filter is_GET (fst (loop_body d p (es ! i) st))) = 1"
      by (simp add: loop_body_GET)
    ultimately show ?thesis
      using False by blast
  qed
next
  assume a: "snd (snd (guard_loop d p pre (uninit\<lparr>bytesReturned := 0\<rparr>))) = Running \<and> cancelled e"
  then have r: "snd (snd (guard_loop d p pre (uninit\<lparr>bytesReturned := 0\<rparr>))) = Running"
    and c: "cancelled e"
    by simp_all
  show "runTask d p uninit (pre @ e # rest) =
          ([Log PRIO_DEBUG ''Worker running (%s)'' [ArgStr (devicePath d)], Rnd_seed,
            CreateEvent, Malloc (pHgGetSize p)] @
           concat (fst (guard_loop d p pre (uninit\<lparr>bytesReturned := 0\<rparr>))) @
           [IsCancelled True, Free, CloseHandle (hEvent p),
            Log PRIO_INFORMATION ''No more guarding'' []],
           Returned)"
    using guard_loop_cancel [OF r c, of rest]
    by (simp add: prod_eq_iff fst_runTask snd_runTask)
qed

theorem cancellation_checked_at_cycle_start_witness:
  "(\<exists>t. fst (guard_loop d0 p0 [e_idle, e_request, e_cancel, e_request] garbage) ! 1 =
        IsCancelled False # t
      \<and> filter is_IsCancelled t = [] \<and> length (filter is_GET t) = 1)
   \<and> fst (guard_loop d0 p0 [e_idle, e_request, e_cancel, e_request] garbage) ! 2 =
       [IsCancelled True]
   \<and> runTask d0 p0 garbage ([e_idle, e_request] @ e_cancel # [e_request]) =
       ([Log PRIO_DEBUG ''Worker running (%s)'' [ArgStr ''HID#VID_1234&PID_5678''], Rnd_seed,
         CreateEvent, Malloc 28] @
        concat (fst (guard_loop d0 p0 [e_idle, e_request] (garbage\<lparr>bytesReturned := 0\<rparr>))) @
        [IsCancelled True, Free, CloseHandle 500, Log PRIO_INFORMATION ''No more guarding'' []],
        Returned)"
proof -
  have len: "length (fst (guard_loop d0 p0 [e_idle, e_request, e_cancel, e_request] garbage)) = 3"
    by (simp add: guard_loop_Cons loop_body_continue example_defs del: guard_loop.simps(2))
  have i1: "1 < length (fst (guard_loop d0 p0 [e_idle, e_request, e_cancel, e_request] garbage))"
    and i2: "2 < length (fst (guard_loop d0 p0 [e_idle, e_request, e_cancel, e_request] garbage))"
    by (simp_all add: len del: guard_loop.simps(2))
  have f: "\<not> cancelled ([e_idle, e_request, e_cancel, e_request] ! 1)"
    "cancelled ([e_idle, e_request, e_cancel, e_request] ! 2)"
    by (simp_all add: example_defs)
  have r: "snd (snd (guard_loop d0 p0 [e_idle, e_request] (garbage\<lparr>bytesReturned := 0\<rparr>))) =
      Running \<and> cancelled e_cancel"
    by (simp add: guard_loop_Cons loop_body_continue example_defs del: guard_loop.simps(2))
  have v: "devicePath d0 = ''HID#VID_1234&PID_5678''" "pHgGetSize p0 = 28" "hEvent p0 = 500"
    by (simp_all add: example_defs pHgGetSize_def)
  note A = cancellation_checked_at_cycle_start [THEN conjunct1, rule_format]
  note B = cancellation_checked_at_cycle_start [THEN conjunct2, rule_format]
  have a1: "\<exists>t. fst (guard_loop d0 p0 [e_idle, e_request, e_cancel, e_request] garbage) ! 1 =
        IsCancelled False # t
      \<and> filter is_IsCancelled t = [] \<and> length (filter is_GET t) = 1"
    using A [OF i1] f(1) by auto
  have a2: "fst (guard_loop d0 p0 [e_idle, e_request, e_cancel, e_request] garbage) ! 2 =
       [IsCancelled True]"
    using A [OF i2] f(2) by auto
  show ?thesis
    using a1 a2 B [OF r, of "[e_request]"]
    by (simp add: v del: guard_loop.simps(2))
qed

end
